theory Spec2Isabelle
  imports Main "HOL-Library.Product_Lexorder"
begin

section \<open>Data model\<close>

text \<open>
  The table \<open>wms_inventory_items\<close> (schema/wms/inventory.ts). Identifiers are UUID
  strings, \<open>date\<close> columns are calendar dates (year, month, day) compared
  chronologically, nullable columns are options. The quantity columns are \<open>integer\<close>,
  the 32-bit signed integer of the store: the service computes with mathematical
  integers, and an \<open>UPDATE\<close> that would store a value outside the range of the column
  is refused by the store with an error and writes nothing (\<open>int4\<close> below). The column
  \<open>id\<close> is called \<open>itemId\<close> here. The time \<open>new Date()\<close> of an update is a parameter
  \<open>now\<close> of the call that makes it.
\<close>

type_synonym uuid = string
type_synonym date = "nat \<times> nat \<times> nat"
type_synonym timestamp = nat

record inventoryItem =
  itemId :: uuid
  tenantId :: uuid
  productId :: uuid
  binId :: uuid
  availableQuantity :: int
  reservedQuantity :: int
  expiryDate :: "date option"
  batchNumber :: "string option"
  lotNumber :: "string option"
  receivedDate :: "date option"
  createdAt :: timestamp
  updatedAt :: timestamp

text \<open>The table is the list of its rows, in storage order.\<close>

type_synonym table = "inventoryItem list"

text \<open>\<open>id\<close> is the primary key of the table.\<close>

definition primaryKey :: "table \<Rightarrow> bool" where
  "primaryKey db = distinct (map itemId db)"

text \<open>The values an \<open>integer\<close> column can hold.\<close>

definition int4 :: "int \<Rightarrow> bool" where
  "int4 n = (- 2147483648 \<le> n \<and> n \<le> 2147483647)"

text \<open>\<open>db.update(inventoryItems).set(...).where(eq(inventoryItems.id, i))\<close>\<close>

definition updateWhereId :: "uuid \<Rightarrow> (inventoryItem \<Rightarrow> inventoryItem) \<Rightarrow> table \<Rightarrow> table" where
  "updateWhereId i f db = map (\<lambda>r. if itemId r = i then f r else r) db"

text \<open>
  The errors of the service and of the route handler, by kind:
  \<^item> \<open>InsufficientStock n\<close>: \<open>Error("Insufficient stock. Could not reserve n units")\<close>;
  \<^item> \<open>NotFound\<close>: \<open>Error('Inventory item not found')\<close>, and the 404 response;
  \<^item> \<open>InvalidArgument\<close>: \<open>Error('Cannot release more than reserved quantity')\<close>, and
    the 400 responses \<open>'Inventory item ID is required'\<close> and \<open>'Validation failed'\<close>;
  \<^item> \<open>InsufficientStockForAdjustment\<close>: the 400 response
    \<open>'Insufficient stock for this adjustment'\<close>;
  \<^item> \<open>IntegerOutOfRange\<close>: the error with which the store refuses a value outside the
    range of an \<open>integer\<close> column, thrown by the \<open>UPDATE\<close> that carries it.
\<close>

datatype error =
    InsufficientStock int
  | NotFound
  | InvalidArgument
  | InsufficientStockForAdjustment
  | IntegerOutOfRange

section \<open>InventoryService\<close>

subsection \<open>getTotalStockForProduct\<close>

text \<open>
  SQL \<open>sum\<close> over the selected rows: \<open>NULL\<close> when no row is selected. A \<open>select\<close> of
  aggregates without \<open>GROUP BY\<close> returns exactly one row, also when no row matches.
  The sums, which the driver delivers as decimal strings, are integers here.
\<close>

record stockTotals =
  totalAvailable :: "int option"
  totalReserved :: "int option"

definition sqlSum :: "int list \<Rightarrow> int option" where
  "sqlSum xs = (if xs = [] then None else Some (sum_list xs))"

definition selectTotals :: "table \<Rightarrow> uuid \<Rightarrow> uuid \<Rightarrow> stockTotals list" where
  "selectTotals db pid tid =
     (let rows = filter (\<lambda>r. productId r = pid \<and> tenantId r = tid) db
      in [\<lparr>totalAvailable = sqlSum (map availableQuantity rows),
           totalReserved = sqlSum (map reservedQuantity rows)\<rparr>])"

text \<open>\<open>return result[0] || { totalAvailable: 0, totalReserved: 0 }\<close>: the row object
  \<open>result[0]\<close> is truthy whenever it exists.\<close>

definition getTotalStockForProduct :: "table \<Rightarrow> uuid \<Rightarrow> uuid \<Rightarrow> stockTotals" where
  "getTotalStockForProduct db pid tid =
     (case selectTotals db pid tid of
        [] \<Rightarrow> \<lparr>totalAvailable = Some 0, totalReserved = Some 0\<rparr>
      | r # _ \<Rightarrow> r)"

subsection \<open>reserveInventory\<close>

record reservation =
  inventoryItemId :: uuid
  quantity :: int

text \<open>
  \<open>ORDER BY expiry_date ASC NULLS LAST\<close> as a sort key: dated rows before undated
  ones, dated rows by date. Rows with equal keys keep their storage order.
\<close>

definition expiryAscNullsLast :: "inventoryItem \<Rightarrow> bool \<times> date" where
  "expiryAscNullsLast r =
     (case expiryDate r of None \<Rightarrow> (True, (0, 0, 0)) | Some d \<Rightarrow> (False, d))"

definition availableItems :: "table \<Rightarrow> uuid \<Rightarrow> uuid \<Rightarrow> inventoryItem list" where
  "availableItems db pid tid =
     sort_key expiryAscNullsLast
       (filter (\<lambda>r. productId r = pid \<and> tenantId r = tid \<and> availableQuantity r > 0) db)"

text \<open>
  The \<open>for\<close> loop over the selected rows. Every update is written to the table at
  once; the values written are computed from the row as it was selected. An update
  refused by the store throws out of the loop, and of the call, and the updates written
  before it stay.
\<close>

fun reserveLoop ::
  "timestamp \<Rightarrow> inventoryItem list \<Rightarrow> int \<Rightarrow> table \<Rightarrow> reservation list
     \<Rightarrow> table \<times> (error + reservation list \<times> int)" where
  "reserveLoop now [] remainingQuantity db reservations =
     (db, Inr (reservations, remainingQuantity))"
| "reserveLoop now (item # items) remainingQuantity db reservations =
     (if remainingQuantity \<le> 0 then (db, Inr (reservations, remainingQuantity))
      else
        let toReserve = min remainingQuantity (availableQuantity item)
        in if \<not> (int4 (availableQuantity item - toReserve)
                  \<and> int4 (reservedQuantity item + toReserve))
           then (db, Inl IntegerOutOfRange)
           else
             let db' = updateWhereId (itemId item)
                         (\<lambda>r. r\<lparr>availableQuantity := availableQuantity item - toReserve,
                                 reservedQuantity := reservedQuantity item + toReserve,
                                 updatedAt := now\<rparr>) db
             in reserveLoop now items (remainingQuantity - toReserve) db'
                  (reservations @ [\<lparr>inventoryItemId = itemId item, quantity = toReserve\<rparr>]))"

definition reserveInventory ::
  "table \<Rightarrow> uuid \<Rightarrow> int \<Rightarrow> uuid \<Rightarrow> timestamp \<Rightarrow> table \<times> (error + reservation list)" where
  "reserveInventory db pid qty tid now =
     (case reserveLoop now (availableItems db pid tid) qty db [] of
        (db', Inl e) \<Rightarrow> (db', Inl e)
      | (db', Inr (reservations, remainingQuantity)) \<Rightarrow>
          if remainingQuantity > 0 then (db', Inl (InsufficientStock remainingQuantity))
          else (db', Inr reservations))"

subsection \<open>releaseReservedInventory\<close>

definition releaseReservedInventory ::
  "table \<Rightarrow> uuid \<Rightarrow> int \<Rightarrow> timestamp \<Rightarrow> table \<times> (error + unit)" where
  "releaseReservedInventory db i qty now =
     (case filter (\<lambda>r. itemId r = i) db of
        [] \<Rightarrow> (db, Inl NotFound)
      | item # _ \<Rightarrow>
          if reservedQuantity item < qty then (db, Inl InvalidArgument)
          else if \<not> (int4 (availableQuantity item + qty) \<and> int4 (reservedQuantity item - qty))
          then (db, Inl IntegerOutOfRange)
          else (updateWhereId i
                  (\<lambda>r. r\<lparr>availableQuantity := availableQuantity item + qty,
                          reservedQuantity := reservedQuantity item - qty,
                          updatedAt := now\<rparr>) db, Inr ()))"

section \<open>The route POST /:id/adjust\<close>

text \<open>
  The request: the path parameter \<open>id\<close> and the body. \<open>inventoryAdjustmentSchema\<close>
  is the zod schema; the UUID format check of zod is a parameter \<open>isUuid\<close>.
\<close>

record adjustmentData =
  adjustmentType :: string
  adjQuantity :: int
  reason :: string

definition inventoryAdjustmentSchema :: "(string \<Rightarrow> bool) \<Rightarrow> string \<Rightarrow> adjustmentData \<Rightarrow> bool" where
  "inventoryAdjustmentSchema isUuid i d =
     (isUuid i \<and> (adjustmentType d = ''increase'' \<or> adjustmentType d = ''decrease'')
      \<and> 1 \<le> adjQuantity d \<and> 1 \<le> length (reason d) \<and> length (reason d) \<le> 500)"

text \<open>The handler, for the caller's \<open>activeTenantId\<close>; on success the response carries
  the first updated row. The update runs inside the \<open>try\<close> block of the validation, so
  an update refused by the store is answered with 400 \<open>'Validation failed'\<close>.\<close>

definition adjust ::
  "(string \<Rightarrow> bool) \<Rightarrow> table \<Rightarrow> uuid \<Rightarrow> string \<Rightarrow> adjustmentData \<Rightarrow> timestamp
     \<Rightarrow> table \<times> (error + inventoryItem option)" where
  "adjust isUuid db activeTenantId i d now =
     (if i = [] then (db, Inl InvalidArgument)
      else if \<not> inventoryAdjustmentSchema isUuid i d then (db, Inl InvalidArgument)
      else
        case filter (\<lambda>r. itemId r = i \<and> tenantId r = activeTenantId) db of
          [] \<Rightarrow> (db, Inl NotFound)
        | existingItem # _ \<Rightarrow>
            let currentQuantity = availableQuantity existingItem;
                newQuantity = (if adjustmentType d = ''increase''
                               then currentQuantity + adjQuantity d
                               else currentQuantity - adjQuantity d)
            in if adjustmentType d \<noteq> ''increase'' \<and> newQuantity < 0
               then (db, Inl InsufficientStockForAdjustment)
               else if \<not> int4 newQuantity then (db, Inl InvalidArgument)
               else
                 let db' = updateWhereId i
                             (\<lambda>r. r\<lparr>availableQuantity := newQuantity, updatedAt := now\<rparr>) db
                 in (db', Inr (find (\<lambda>r. itemId r = i) db')))"

section \<open>Notions used in the statements\<close>

text \<open>The \<open>WHERE\<close> clause of the query of \<open>reserveInventory\<close>.\<close>

definition isCandidate :: "uuid \<Rightarrow> uuid \<Rightarrow> inventoryItem \<Rightarrow> bool" where
  "isCandidate pid tid r = (productId r = pid \<and> tenantId r = tid \<and> availableQuantity r > 0)"

text \<open>A row after \<open>n\<close> units moved from available to reserved at time \<open>now\<close>.\<close>

definition moved :: "timestamp \<Rightarrow> int \<Rightarrow> inventoryItem \<Rightarrow> inventoryItem" where
  "moved now n r =
     r\<lparr>availableQuantity := availableQuantity r - n,
       reservedQuantity := reservedQuantity r + n,
       updatedAt := now\<rparr>"

text \<open>The sum of \<open>availableQuantity + reservedQuantity\<close> over the rows of a product.\<close>

definition productStock :: "uuid \<Rightarrow> table \<Rightarrow> int" where
  "productStock pid db =
     sum_list (map (\<lambda>r. availableQuantity r + reservedQuantity r)
                 (filter (\<lambda>r. productId r = pid) db))"

section \<open>Sequences of calls\<close>

text \<open>
  A call of one of the three mutating operations, with the time at which it runs.
  \<open>perform\<close> is the table the call leaves behind, whether it succeeds or fails.
  \<open>adjustedBy\<close> is what a call is entitled to add to the stock of a product: the
  signed quantity of a successful adjustment of one of its rows, and nothing otherwise.
  \<open>netAdjusted\<close> adds this up along a sequence of calls.
\<close>

datatype call =
    Reserve uuid int uuid
  | Release uuid int
  | Adjust uuid string adjustmentData

fun perform :: "(string \<Rightarrow> bool) \<Rightarrow> table \<Rightarrow> call \<times> timestamp \<Rightarrow> table" where
  "perform isUuid db (Reserve pid qty tid, now) = fst (reserveInventory db pid qty tid now)"
| "perform isUuid db (Release i qty, now) = fst (releaseReservedInventory db i qty now)"
| "perform isUuid db (Adjust tid i d, now) = fst (adjust isUuid db tid i d now)"

fun adjustedBy :: "(string \<Rightarrow> bool) \<Rightarrow> uuid \<Rightarrow> table \<Rightarrow> call \<times> timestamp \<Rightarrow> int" where
  "adjustedBy isUuid pid db (Adjust tid i d, now) =
     (case snd (adjust isUuid db tid i d now) of
        Inl _ \<Rightarrow> 0
      | Inr _ \<Rightarrow>
          if list_ex (\<lambda>r. itemId r = i \<and> productId r = pid) db
          then (if adjustmentType d = ''increase'' then adjQuantity d else - adjQuantity d)
          else 0)"
| "adjustedBy isUuid pid db (Reserve _ _ _, now) = 0"
| "adjustedBy isUuid pid db (Release _ _, now) = 0"

fun netAdjusted :: "(string \<Rightarrow> bool) \<Rightarrow> uuid \<Rightarrow> table \<Rightarrow> (call \<times> timestamp) list \<Rightarrow> int" where
  "netAdjusted isUuid pid db [] = 0"
| "netAdjusted isUuid pid db (c # cs) =
     adjustedBy isUuid pid db c + netAdjusted isUuid pid (perform isUuid db c) cs"

section \<open>The loop as a list of allocations\<close>

text \<open>
  For the proofs, the amounts the loop plans to take are computed from the selected
  rows alone (\<open>allocations\<close>). The loop writes them in order (\<open>writeAllocation\<close>) up to
  the first one the store refuses (\<open>writable\<close>, \<open>written\<close>), and under the primary key
  it moves, in every row, the amount written for the row's id (\<open>movedBy\<close>).
\<close>

fun allocations :: "inventoryItem list \<Rightarrow> int \<Rightarrow> (inventoryItem \<times> int) list" where
  "allocations [] remaining = []"
| "allocations (c # cs) remaining =
     (if remaining \<le> 0 then []
      else (c, min remaining (availableQuantity c))
             # allocations cs (remaining - min remaining (availableQuantity c)))"

definition writable :: "inventoryItem \<times> int \<Rightarrow> bool" where
  "writable a =
     (int4 (availableQuantity (fst a) - snd a) \<and> int4 (reservedQuantity (fst a) + snd a))"

definition written :: "inventoryItem list \<Rightarrow> int \<Rightarrow> (inventoryItem \<times> int) list" where
  "written items remaining = takeWhile writable (allocations items remaining)"

definition writeAllocation :: "timestamp \<Rightarrow> table \<Rightarrow> inventoryItem \<times> int \<Rightarrow> table" where
  "writeAllocation now db a =
     updateWhereId (itemId (fst a))
       (\<lambda>r. r\<lparr>availableQuantity := availableQuantity (fst a) - snd a,
               reservedQuantity := reservedQuantity (fst a) + snd a,
               updatedAt := now\<rparr>) db"

definition toReservation :: "inventoryItem \<times> int \<Rightarrow> reservation" where
  "toReservation a = \<lparr>inventoryItemId = itemId (fst a), quantity = snd a\<rparr>"

definition movedBy :: "timestamp \<Rightarrow> (uuid \<times> int) list \<Rightarrow> inventoryItem \<Rightarrow> inventoryItem" where
  "movedBy now al r = (case map_of al (itemId r) of None \<Rightarrow> r | Some n \<Rightarrow> moved now n r)"

section \<open>Example tables\<close>

text \<open>
  A row with the given identity, quantities and expiry date; the three rows of the
  first-expired-first-out example; a table with 8 available units in two rows; and a
  sequence of calls.
\<close>

definition exampleItem :: "uuid \<Rightarrow> uuid \<Rightarrow> uuid \<Rightarrow> int \<Rightarrow> int \<Rightarrow> date option \<Rightarrow> inventoryItem" where
  "exampleItem i tid pid a r e =
     \<lparr>itemId = i, tenantId = tid, productId = pid, binId = ''bin-1'',
      availableQuantity = a, reservedQuantity = r, expiryDate = e,
      batchNumber = None, lotNumber = None, receivedDate = None,
      createdAt = 0, updatedAt = 0\<rparr>"

definition fefoExample :: table where
  "fefoExample =
     [exampleItem ''item-1'' ''tenant-1'' ''product-1'' 5 0 (Some (2024, 1, 1)),
      exampleItem ''item-2'' ''tenant-1'' ''product-1'' 10 0 (Some (2024, 6, 1)),
      exampleItem ''item-3'' ''tenant-1'' ''product-1'' 20 0 None]"


definition exampleCalls :: "(call \<times> timestamp) list" where
  "exampleCalls =
     [(Reserve ''product-1'' 8 ''tenant-1'', 1),
      (Adjust ''tenant-1'' ''item-3''
         \<lparr>adjustmentType = ''increase'', adjQuantity = 4, reason = ''recount''\<rparr>, 2),
      (Release ''item-2'' 3, 3),
      (Adjust ''tenant-1'' ''item-1''
         \<lparr>adjustmentType = ''decrease'', adjQuantity = 1, reason = ''damaged''\<rparr>, 4)]"

section \<open>Auxiliary facts\<close>

lemma reserveLoop_break:
  "remainingQuantity \<le> 0 \<Longrightarrow>
     reserveLoop now items remainingQuantity db rs = (db, Inr (rs, remainingQuantity))"
  by (cases items) simp_all

lemma filter_distinct_key:
  "distinct (map f xs) \<Longrightarrow> r \<in> set xs \<Longrightarrow> filter (\<lambda>x. f x = f r) xs = [r]"
proof (induction xs)
  case Nil
  then show ?case by simp
next
  case (Cons a xs)
  from Cons.prems(1) have fresh: "f a \<notin> f ` set xs" and dist: "distinct (map f xs)"
    by simp_all
  show ?case
  proof (cases "a = r")
    case True
    have "filter (\<lambda>x. f x = f r) xs = []"
      unfolding filter_empty_conv using fresh True by (metis imageI)
    with True show ?thesis by simp
  next
    case False
    with Cons.prems(2) have mem: "r \<in> set xs" by simp
    then have "f a \<noteq> f r" using fresh by (metis imageI)
    with Cons.IH [OF dist mem] show ?thesis by simp
  qed
qed

lemma filter_primaryKey:
  "primaryKey db \<Longrightarrow> r \<in> set db \<Longrightarrow> filter (\<lambda>x. itemId x = itemId r) db = [r]"
  unfolding primaryKey_def by (rule filter_distinct_key)

lemma select_by_id_and_tenant:
  assumes "primaryKey db" and "r \<in> set db" and "tenantId r = t"
  shows "filter (\<lambda>x. itemId x = itemId r \<and> tenantId x = t) db = [r]"
proof -
  have "filter (\<lambda>x. itemId x = itemId r \<and> tenantId x = t) db
          = filter (\<lambda>x. tenantId x = t) (filter (\<lambda>x. itemId x = itemId r) db)"
    by (simp add: conj_commute)
  also have "\<dots> = filter (\<lambda>x. tenantId x = t) [r]"
    using assms(1,2) by (simp only: filter_primaryKey)
  also have "\<dots> = [r]"
    using assms(3) by simp
  finally show ?thesis .
qed

lemma find_updated:
  "distinct (map itemId db) \<Longrightarrow> r \<in> set db \<Longrightarrow> itemId (f r) = itemId r \<Longrightarrow>
     find (\<lambda>x. itemId x = itemId r) (updateWhereId (itemId r) f db) = Some (f r)"
proof (induction db)
  case Nil
  then show ?case by simp
next
  case (Cons a db)
  from Cons.prems(1) have fresh: "itemId a \<notin> itemId ` set db" and dist: "distinct (map itemId db)"
    by simp_all
  show ?case
  proof (cases "itemId a = itemId r")
    case True
    have "a = r"
    proof (rule ccontr)
      assume "a \<noteq> r"
      with Cons.prems(2) have "r \<in> set db" by simp
      then have "itemId r \<in> itemId ` set db" by (rule imageI)
      with fresh True show False by simp
    qed
    with Cons.prems(3) show ?thesis by (simp add: updateWhereId_def)
  next
    case False
    with Cons.prems(2) have mem: "r \<in> set db" by auto
    have "find (\<lambda>x. itemId x = itemId r) (updateWhereId (itemId r) f db) = Some (f r)"
      using Cons.IH [OF dist mem Cons.prems(3)] .
    with False show ?thesis by (simp add: updateWhereId_def)
  qed
qed

lemma adjust_reserved_unchanged:
  "map reservedQuantity (fst (adjust isUuid db t i d now)) = map reservedQuantity db"
  by (simp add: adjust_def updateWhereId_def Let_def o_def if_distrib [of reservedQuantity]
           split: list.split)

lemma reserveLoop_allocations:
  "reserveLoop now items remaining db rs =
     (foldl (writeAllocation now) db (written items remaining),
      if list_all writable (allocations items remaining)
      then Inr (rs @ map toReservation (allocations items remaining),
                remaining - sum_list (map snd (allocations items remaining)))
      else Inl IntegerOutOfRange)"
  by (induction items arbitrary: remaining db rs)
     (simp_all add: Let_def writeAllocation_def toReservation_def writable_def written_def)

lemma allocations_break: "remaining \<le> 0 \<Longrightarrow> allocations items remaining = []"
  by (cases items) simp_all

lemma allocations_append:
  "allocations (xs @ ys) remaining =
     allocations xs remaining
       @ allocations ys (remaining - sum_list (map snd (allocations xs remaining)))"
proof (induction xs arbitrary: remaining)
  case Nil
  then show ?case by simp
next
  case (Cons x xs)
  show ?case
  proof (cases "remaining \<le> 0")
    case True
    then show ?thesis by (simp add: allocations_break)
  next
    case False
    then show ?thesis by (simp add: Cons.IH algebra_simps)
  qed
qed

lemma allocations_sum_le: "0 \<le> remaining \<Longrightarrow> sum_list (map snd (allocations items remaining)) \<le> remaining"
proof (induction items arbitrary: remaining)
  case Nil
  then show ?case by simp
next
  case (Cons c cs)
  show ?case
  proof (cases "remaining \<le> 0")
    case True
    with Cons.prems show ?thesis by simp
  next
    case False
    have "0 \<le> remaining - min remaining (availableQuantity c)" by simp
    from Cons.IH [OF this] False show ?thesis by simp
  qed
qed


lemma allocations_full:
  "0 < remaining - sum_list (map snd (allocations items remaining)) \<Longrightarrow>
     allocations items remaining = map (\<lambda>c. (c, availableQuantity c)) items"
proof (induction items arbitrary: remaining)
  case Nil
  then show ?case by simp
next
  case (Cons c cs)
  show ?case
  proof (cases "remaining \<le> 0")
    case True
    with Cons.prems show ?thesis by simp
  next
    case False
    let ?t = "min remaining (availableQuantity c)"
    from Cons.prems False
    have pos: "0 < (remaining - ?t) - sum_list (map snd (allocations cs (remaining - ?t)))"
      by simp
    have "?t = availableQuantity c"
    proof (rule ccontr)
      assume "?t \<noteq> availableQuantity c"
      then have "remaining - ?t \<le> 0" by simp
      then have "allocations cs (remaining - ?t) = []" by (rule allocations_break)
      with pos \<open>remaining - ?t \<le> 0\<close> show False by simp
    qed
    with Cons.IH [OF pos] False show ?thesis by simp
  qed
qed

lemma allocations_prefix:
  "map fst (allocations items remaining) = take (length (allocations items remaining)) items"
  by (induction items arbitrary: remaining) simp_all

lemma allocations_nth:
  "k < length (allocations items remaining) \<Longrightarrow>
     snd (allocations items remaining ! k)
       = min (remaining - sum_list (map snd (take k (allocations items remaining))))
             (availableQuantity (items ! k))"
proof (induction items arbitrary: remaining k)
  case Nil
  then show ?case by simp
next
  case (Cons c cs)
  show ?case
  proof (cases "remaining \<le> 0")
    case True
    with Cons.prems show ?thesis by simp
  next
    case False
    show ?thesis
    proof (cases k)
      case 0
      with False show ?thesis by simp
    next
      case (Suc j)
      with Cons.prems False
      have "j < length (allocations cs (remaining - min remaining (availableQuantity c)))"
        by simp
      from Cons.IH [OF this] Suc False show ?thesis by (simp add: algebra_simps)
    qed
  qed
qed

lemma itemId_moved [simp]: "itemId (moved now n r) = itemId r"
  by (simp add: moved_def)

lemma writeAllocation_ids: "map itemId (writeAllocation now db a) = map itemId db"
  by (simp add: writeAllocation_def updateWhereId_def o_def if_distrib [of itemId])

lemma same_id_same_row:
  assumes "distinct (map itemId db)" and "r \<in> set db" and "c \<in> set db"
    and "itemId r = itemId c"
  shows "r = c"
proof -
  from assms(1) have "inj_on itemId (set db)" by (simp add: distinct_map)
  with assms(2,3,4) show ?thesis by (simp add: inj_on_def)
qed

lemma writeAllocation_moved:
  assumes "distinct (map itemId db)" and "fst a \<in> set db"
  shows "writeAllocation now db a
           = map (\<lambda>r. if itemId r = itemId (fst a) then moved now (snd a) r else r) db"
  unfolding writeAllocation_def updateWhereId_def
proof (rule map_cong [OF refl])
  fix r assume r: "r \<in> set db"
  show "(if itemId r = itemId (fst a)
         then r\<lparr>availableQuantity := availableQuantity (fst a) - snd a,
                reservedQuantity := reservedQuantity (fst a) + snd a,
                updatedAt := now\<rparr>
         else r)
        = (if itemId r = itemId (fst a) then moved now (snd a) r else r)"
  proof (cases "itemId r = itemId (fst a)")
    case True
    with assms r have "r = fst a" by (simp add: same_id_same_row)
    then show ?thesis by (simp add: moved_def)
  next
    case False
    then show ?thesis by simp
  qed
qed

lemma foldl_writeAllocation:
  assumes "distinct (map itemId db)" and "fst ` set al \<subseteq> set db"
    and "distinct (map (\<lambda>a. itemId (fst a)) al)"
  shows "foldl (writeAllocation now) db al
           = map (movedBy now (map (\<lambda>a. (itemId (fst a), snd a)) al)) db"
  using assms
proof (induction al arbitrary: db)
  case Nil
  then show ?case by (simp add: movedBy_def)
next
  case (Cons a al)
  let ?db1 = "writeAllocation now db a"
  from Cons.prems(2) have a_in: "fst a \<in> set db" by simp
  from Cons.prems(3) have fresh: "itemId (fst a) \<notin> (\<lambda>a. itemId (fst a)) ` set al"
    and dist_al: "distinct (map (\<lambda>a. itemId (fst a)) al)" by simp_all
  have db1: "?db1 = map (\<lambda>r. if itemId r = itemId (fst a) then moved now (snd a) r else r) db"
    using Cons.prems(1) a_in by (rule writeAllocation_moved)
  have dist1: "distinct (map itemId ?db1)"
    using Cons.prems(1) by (simp add: writeAllocation_ids)
  have sub1: "fst ` set al \<subseteq> set ?db1"
  proof
    fix c assume c: "c \<in> fst ` set al"
    then obtain b where b: "b \<in> set al" and cb: "c = fst b" by auto
    from b have mem: "itemId (fst b) \<in> (\<lambda>a. itemId (fst a)) ` set al" by (rule imageI)
    have ne: "itemId c \<noteq> itemId (fst a)"
    proof
      assume "itemId c = itemId (fst a)"
      with mem cb have "itemId (fst a) \<in> (\<lambda>a. itemId (fst a)) ` set al" by simp
      with fresh show False by contradiction
    qed
    from c Cons.prems(2) have "c \<in> set db" by auto
    then have "(if itemId c = itemId (fst a) then moved now (snd a) c else c) \<in> set ?db1"
      unfolding db1 set_map by (rule imageI)
    with ne show "c \<in> set ?db1" by simp
  qed
  have none: "map_of (map (\<lambda>a. (itemId (fst a), snd a)) al) (itemId (fst a)) = None"
    using fresh by (simp add: map_of_eq_None_iff image_image)
  have "foldl (writeAllocation now) db (a # al) = foldl (writeAllocation now) ?db1 al"
    by simp
  also have "\<dots> = map (movedBy now (map (\<lambda>a. (itemId (fst a), snd a)) al)) ?db1"
    using dist1 sub1 dist_al by (rule Cons.IH)
  also have "\<dots> = map (movedBy now (map (\<lambda>a. (itemId (fst a), snd a)) (a # al))) db"
    unfolding db1 map_map
  proof (rule map_cong [OF refl])
    fix r assume "r \<in> set db"
    show "(movedBy now (map (\<lambda>a. (itemId (fst a), snd a)) al)
             \<circ> (\<lambda>r. if itemId r = itemId (fst a) then moved now (snd a) r else r)) r
          = movedBy now (map (\<lambda>a. (itemId (fst a), snd a)) (a # al)) r"
      using none by (simp add: movedBy_def)
  qed
  finally show ?case .
qed

lemma availableItems_candidates:
  "availableItems db pid tid = sort_key expiryAscNullsLast (filter (isCandidate pid tid) db)"
  by (simp add: availableItems_def isCandidate_def [abs_def])

lemma set_availableItems:
  "set (availableItems db pid tid) = {r \<in> set db. isCandidate pid tid r}"
  by (simp add: availableItems_candidates)

lemma distinct_availableItems:
  assumes "primaryKey db"
  shows "distinct (map itemId (availableItems db pid tid))"
proof -
  from assms have d: "distinct db" and inj: "inj_on itemId (set db)"
    by (simp_all add: primaryKey_def distinct_map)
  have "set (availableItems db pid tid) \<subseteq> set db"
    by (auto simp: set_availableItems)
  with inj have "inj_on itemId (set (availableItems db pid tid))"
    by (rule inj_on_subset)
  moreover have "distinct (availableItems db pid tid)"
    using d by (simp add: availableItems_candidates)
  ultimately show ?thesis by (simp add: distinct_map)
qed




lemma allocations_in_table:
  "fst ` set (allocations (availableItems db pid tid) qty) \<subseteq> set db"
proof -
  have "fst ` set (allocations (availableItems db pid tid) qty)
          = set (map fst (allocations (availableItems db pid tid) qty))"
    by simp
  also have "\<dots> \<subseteq> set (availableItems db pid tid)"
    unfolding allocations_prefix by (rule set_take_subset)
  also have "\<dots> \<subseteq> set db"
    by (auto simp: set_availableItems)
  finally show ?thesis .
qed

lemma written_subset: "set (written items qty) \<subseteq> set (allocations items qty)"
  unfolding written_def by (auto dest: set_takeWhileD)

lemma written_all: "list_all writable (allocations items qty) \<Longrightarrow> written items qty = allocations items qty"
  unfolding written_def by (simp add: list_all_iff)

lemma written_in_table:
  "fst ` set (written (availableItems db pid tid) qty) \<subseteq> set db"
  using written_subset [of "availableItems db pid tid" qty]
        allocations_in_table [of db pid tid qty]
  by (meson image_mono subset_trans)

lemma allocations_distinct:
  assumes "distinct (map itemId items)"
  shows "distinct (map (\<lambda>a. itemId (fst a)) (allocations items qty))"
proof -
  have "map (\<lambda>a. itemId (fst a)) (allocations items qty)
          = map itemId (map fst (allocations items qty))"
    by (simp add: o_def)
  also have "\<dots> = take (length (allocations items qty)) (map itemId items)"
    unfolding allocations_prefix by (simp add: take_map)
  finally show ?thesis
    using assms by simp
qed

lemma written_distinct:
  assumes "distinct (map itemId items)"
  shows "distinct (map (\<lambda>a. itemId (fst a)) (written items qty))"
proof -
  have "written items qty = take (length (written items qty)) (allocations items qty)"
    unfolding written_def by (rule takeWhile_eq_take)
  then have "map (\<lambda>a. itemId (fst a)) (written items qty)
               = take (length (written items qty))
                   (map (\<lambda>a. itemId (fst a)) (allocations items qty))"
    by (metis take_map)
  with allocations_distinct [OF assms, of qty] show ?thesis
    by (simp add: distinct_take)
qed

lemma reserveInventory_allocations:
  assumes "primaryKey db"
  shows "reserveInventory db pid qty tid now =
     (let al = allocations (availableItems db pid tid) qty;
          db' = map (movedBy now (map (\<lambda>a. (itemId (fst a), snd a))
                  (written (availableItems db pid tid) qty))) db;
          remaining = qty - sum_list (map snd al)
      in if \<not> list_all writable al then (db', Inl IntegerOutOfRange)
         else if remaining > 0 then (db', Inl (InsufficientStock remaining))
         else (db', Inr (map toReservation al)))"
proof -
  have "foldl (writeAllocation now) db (written (availableItems db pid tid) qty)
          = map (movedBy now (map (\<lambda>a. (itemId (fst a), snd a))
                  (written (availableItems db pid tid) qty))) db"
    using assms written_in_table written_distinct [OF distinct_availableItems [OF assms]]
    unfolding primaryKey_def by (rule foldl_writeAllocation)
  then show ?thesis
    by (simp add: reserveInventory_def reserveLoop_allocations Let_def)
qed


lemma availableItems_fefoExample: "availableItems fefoExample ''product-1'' ''tenant-1'' = fefoExample"
  by (simp add: availableItems_def fefoExample_def exampleItem_def expiryAscNullsLast_def)

lemma availableItems_fefoExample_rev: "availableItems (rev fefoExample) ''product-1'' ''tenant-1'' = fefoExample"
  by (simp add: availableItems_def fefoExample_def exampleItem_def expiryAscNullsLast_def)

lemma sorted_availableItems:
  "sorted (map expiryAscNullsLast (availableItems db pid tid))"
  by (simp add: availableItems_def)

lemma expiry_order:
  "(expiryAscNullsLast a \<le> expiryAscNullsLast b)
     = (case expiryDate a of
          None \<Rightarrow> expiryDate b = None
        | Some x \<Rightarrow> (case expiryDate b of None \<Rightarrow> True | Some y \<Rightarrow> x \<le> y))"
  by (simp add: expiryAscNullsLast_def split: option.split)

lemma nulls_last:
  "sorted (map expiryAscNullsLast xs) \<Longrightarrow>
     xs = filter (\<lambda>r. expiryDate r \<noteq> None) xs @ filter (\<lambda>r. expiryDate r = None) xs"
proof (induction xs)
  case Nil
  then show ?case by simp
next
  case (Cons x xs)
  from Cons.prems have later: "\<forall>y \<in> set xs. expiryAscNullsLast x \<le> expiryAscNullsLast y"
    and rest: "sorted (map expiryAscNullsLast xs)"
    by simp_all
  show ?case
  proof (cases "expiryDate x")
    case None
    with later have "\<forall>y \<in> set xs. expiryDate y = None"
      by (simp add: expiry_order)
    then have "filter (\<lambda>r. expiryDate r \<noteq> None) xs = []"
      and "filter (\<lambda>r. expiryDate r = None) xs = xs"
      by (simp_all add: filter_empty_conv filter_id_conv)
    with None show ?thesis by simp
  next
    case (Some d)
    with Cons.IH [OF rest] show ?thesis by (simp del: not_None_eq)
  qed
qed

lemma itemId_movedBy [simp]: "itemId (movedBy now m r) = itemId r"
  by (simp add: movedBy_def split: option.split)

lemma fst_reserveInventory:
  "primaryKey db \<Longrightarrow>
     fst (reserveInventory db pid qty tid now)
       = map (movedBy now (map (\<lambda>a. (itemId (fst a), snd a))
                (written (availableItems db pid tid) qty))) db"
  by (simp add: reserveInventory_allocations Let_def)

lemma row_after_moves:
  assumes "primaryKey db" and "r \<in> set db" and "r' \<in> set (map (movedBy now m) db)"
    and "itemId r' = itemId r"
  shows "r' = movedBy now m r"
proof -
  from assms(3) obtain r0 where r0: "r0 \<in> set db" and eq: "r' = movedBy now m r0"
    by auto
  from eq assms(4) have "itemId r0 = itemId r" by simp
  with assms(1) r0 assms(2) have "r0 = r"
    unfolding primaryKey_def by (rule same_id_same_row)
  with eq show ?thesis by simp
qed

lemma allocated_iff:
  assumes "primaryKey db" and "r \<in> set db"
  shows "(map_of (map (\<lambda>a. (itemId (fst a), snd a))
            (written (availableItems db pid tid) qty)) (itemId r) = Some n)
         = ((r, n) \<in> set (written (availableItems db pid tid) qty))"
proof
  let ?al = "written (availableItems db pid tid) qty"
  assume "map_of (map (\<lambda>a. (itemId (fst a), snd a)) ?al) (itemId r) = Some n"
  then have "(itemId r, n) \<in> set (map (\<lambda>a. (itemId (fst a), snd a)) ?al)"
    by (rule map_of_SomeD)
  then obtain a where a: "a \<in> set ?al" and id: "itemId (fst a) = itemId r" and n: "snd a = n"
    by auto
  from a have "fst a \<in> fst ` set ?al" by (rule imageI)
  with written_in_table have "fst a \<in> set db" by (rule subsetD)
  with assms id have "fst a = r"
    unfolding primaryKey_def by (simp add: same_id_same_row)
  with n have "a = (r, n)" by (simp add: prod_eq_iff)
  with a show "(r, n) \<in> set ?al" by simp
next
  let ?al = "written (availableItems db pid tid) qty"
  assume "(r, n) \<in> set ?al"
  then have "(\<lambda>a. (itemId (fst a), snd a)) (r, n) \<in> set (map (\<lambda>a. (itemId (fst a), snd a)) ?al)"
    unfolding set_map by (rule imageI)
  then have mem: "(itemId r, n) \<in> set (map (\<lambda>a. (itemId (fst a), snd a)) ?al)"
    by simp
  have "distinct (map fst (map (\<lambda>a. (itemId (fst a), snd a)) ?al))"
    using written_distinct [OF distinct_availableItems [OF assms(1)], of pid tid qty]
    by (simp add: o_def)
  then show "map_of (map (\<lambda>a. (itemId (fst a), snd a)) ?al) (itemId r) = Some n"
    using mem by (rule map_of_is_SomeI)
qed

lemma allocated_in_availableItems:
  "(r, n) \<in> set (allocations items qty) \<Longrightarrow> r \<in> set items"
proof -
  assume "(r, n) \<in> set (allocations items qty)"
  then have "fst (r, n) \<in> set (map fst (allocations items qty))"
    unfolding set_map by (rule imageI)
  then have "r \<in> set (take (length (allocations items qty)) items)"
    by (simp only: allocations_prefix fst_conv)
  then show ?thesis by (rule in_set_takeD)
qed

lemma written_in_availableItems:
  "(r, n) \<in> set (written items qty) \<Longrightarrow> r \<in> set items"
  using written_subset [of items qty] by (auto intro: allocated_in_availableItems)

lemma written_earlier_full:
  assumes "(r, n) \<in> set (written (xs @ ys) qty)" and "r \<notin> set xs" and "d \<in> set xs"
  shows "(d, availableQuantity d) \<in> set (written (xs @ ys) qty)"
proof -
  let ?al1 = "allocations xs qty"
  let ?al2 = "allocations ys (qty - sum_list (map snd ?al1))"
  have split: "allocations (xs @ ys) qty = ?al1 @ ?al2"
    by (rule allocations_append)
  have notin: "(r, n) \<notin> set ?al1"
  proof
    assume "(r, n) \<in> set ?al1"
    then have "r \<in> set xs" by (rule allocated_in_availableItems)
    with assms(2) show False by contradiction
  qed
  have all1: "\<forall>a \<in> set ?al1. writable a"
  proof (rule ccontr)
    assume "\<not> (\<forall>a \<in> set ?al1. writable a)"
    then obtain a where "a \<in> set ?al1" and "\<not> writable a" by auto
    then have "takeWhile writable (?al1 @ ?al2) = takeWhile writable ?al1"
      by (rule takeWhile_append1)
    with assms(1) have "(r, n) \<in> set (takeWhile writable ?al1)"
      by (simp add: written_def split)
    then have "(r, n) \<in> set ?al1" by (rule set_takeWhileD [THEN conjunct1])
    with notin show False by contradiction
  qed
  then have w: "written (xs @ ys) qty = ?al1 @ takeWhile writable ?al2"
    by (simp add: written_def split)
  with assms(1) notin have "(r, n) \<in> set (takeWhile writable ?al2)" by simp
  then have "?al2 \<noteq> []" by auto
  then have "\<not> qty - sum_list (map snd ?al1) \<le> 0"
    using allocations_break by auto
  then have "0 < qty - sum_list (map snd ?al1)" by simp
  then have "?al1 = map (\<lambda>c. (c, availableQuantity c)) xs"
    by (rule allocations_full)
  with assms(3) have "(d, availableQuantity d) \<in> set ?al1" by (simp add: image_iff)
  then show ?thesis by (simp add: w)
qed

lemma movedBy_fields [simp]:
  "productId (movedBy now m r) = productId r"
  "tenantId (movedBy now m r) = tenantId r"
  "expiryDate (movedBy now m r) = expiryDate r"
  by (simp_all add: movedBy_def moved_def split: option.split)

lemma changed_row_allocated:
  assumes "primaryKey db" and "r \<in> set db"
    and "r' \<in> set (fst (reserveInventory db pid qty tid now))"
    and "itemId r' = itemId r" and "availableQuantity r' \<noteq> availableQuantity r"
  shows "\<exists>n. (r, n) \<in> set (written (availableItems db pid tid) qty)"
proof -
  let ?m = "map (\<lambda>a. (itemId (fst a), snd a)) (written (availableItems db pid tid) qty)"
  from assms(3) have "r' \<in> set (map (movedBy now ?m) db)"
    by (simp only: fst_reserveInventory [OF assms(1)])
  with assms(1,2) have r': "r' = movedBy now ?m r"
    using assms(4) by (rule row_after_moves)
  have "map_of ?m (itemId r) \<noteq> None"
  proof
    assume "map_of ?m (itemId r) = None"
    then have "movedBy now ?m r = r" by (simp add: movedBy_def)
    with r' assms(5) show False by simp
  qed
  then obtain n where "map_of ?m (itemId r) = Some n" by auto
  then have "(r, n) \<in> set (written (availableItems db pid tid) qty)"
    by (simp only: allocated_iff [OF assms(1,2)])
  then show ?thesis ..
qed

lemma allocated_row_moved:
  assumes "primaryKey db" and "(d, n) \<in> set (written (availableItems db pid tid) qty)"
    and "d' \<in> set (fst (reserveInventory db pid qty tid now))"
    and "itemId d' = itemId d"
  shows "d' = moved now n d"
proof -
  let ?m = "map (\<lambda>a. (itemId (fst a), snd a)) (written (availableItems db pid tid) qty)"
  from assms(2) have "d \<in> set (availableItems db pid tid)"
    by (rule written_in_availableItems)
  then have d: "d \<in> set db" by (simp add: set_availableItems)
  from assms(3) have "d' \<in> set (map (movedBy now ?m) db)"
    by (simp only: fst_reserveInventory [OF assms(1)])
  with assms(1) d have d': "d' = movedBy now ?m d"
    using assms(4) by (rule row_after_moves)
  from assms(2) have "map_of ?m (itemId d) = Some n"
    by (simp only: allocated_iff [OF assms(1) d])
  with d' show ?thesis by (simp add: movedBy_def)
qed

lemma earlier_rows_drained:
  assumes "primaryKey db" and "availableItems db pid tid = xs @ ys"
    and "r \<in> set ys" and "r' \<in> set (fst (reserveInventory db pid qty tid now))"
    and "itemId r' = itemId r" and "availableQuantity r' \<noteq> availableQuantity r"
    and "d \<in> set xs" and "d' \<in> set (fst (reserveInventory db pid qty tid now))"
    and "itemId d' = itemId d"
  shows "availableQuantity d' = 0"
proof -
  from assms(2,3) have "r \<in> set (availableItems db pid tid)" by simp
  then have r: "r \<in> set db" by (simp add: set_availableItems)
  from changed_row_allocated [OF assms(1) r assms(4,5,6)]
  obtain n where n: "(r, n) \<in> set (written (xs @ ys) qty)"
    unfolding assms(2) by auto
  have "distinct (availableItems db pid tid)"
    using distinct_availableItems [OF assms(1), of pid tid] by (simp add: distinct_map)
  then have "set xs \<inter> set ys = {}" unfolding assms(2) by simp
  with assms(3) have "r \<notin> set xs" by auto
  with n have "(d, availableQuantity d) \<in> set (written (xs @ ys) qty)"
    using assms(7) by (rule written_earlier_full)
  then have "(d, availableQuantity d) \<in> set (written (availableItems db pid tid) qty)"
    by (simp only: assms(2))
  with assms(1) have "d' = moved now (availableQuantity d) d"
    using assms(8,9) by (rule allocated_row_moved)
  then show ?thesis by (simp add: moved_def)
qed

lemma dated_rows_drained:
  assumes "primaryKey db" and "r \<in> set db" and "expiryDate r = None"
    and "r' \<in> set (fst (reserveInventory db pid qty tid now))"
    and "itemId r' = itemId r" and "availableQuantity r' \<noteq> availableQuantity r"
    and "d' \<in> set (fst (reserveInventory db pid qty tid now))"
    and "productId d' = pid" and "tenantId d' = tid" and "expiryDate d' \<noteq> None"
  shows "availableQuantity d' \<le> 0"
proof -
  let ?items = "availableItems db pid tid"
  let ?m = "map (\<lambda>a. (itemId (fst a), snd a)) (written ?items qty)"
  let ?xs = "filter (\<lambda>r. expiryDate r \<noteq> None) ?items"
  let ?ys = "filter (\<lambda>r. expiryDate r = None) ?items"
  have split: "?items = ?xs @ ?ys"
    using sorted_availableItems by (rule nulls_last)
  from assms(7) have "d' \<in> set (map (movedBy now ?m) db)"
    by (simp only: fst_reserveInventory [OF assms(1)])
  then obtain d where d: "d \<in> set db" and d': "d' = movedBy now ?m d" by auto
  from d' assms(8,9,10)
  have fields: "productId d = pid" "tenantId d = tid" "expiryDate d \<noteq> None"
    by simp_all
  from d' have id: "itemId d' = itemId d" by simp
  show ?thesis
  proof (cases "isCandidate pid tid d")
    case True
    with d have "d \<in> set ?items" by (simp add: set_availableItems)
    with fields(3) have dx: "d \<in> set ?xs" by simp
    from changed_row_allocated [OF assms(1,2,4,5,6)]
    obtain n where "(r, n) \<in> set (written ?items qty)" by auto
    then have "r \<in> set ?items" by (rule written_in_availableItems)
    with assms(3) have ry: "r \<in> set ?ys" by simp
    have "availableQuantity d' = 0"
      using assms(1) split ry assms(4,5,6) dx assms(7) id by (rule earlier_rows_drained)
    then show ?thesis by simp
  next
    case False
    with fields have low: "availableQuantity d \<le> 0" by (simp add: isCandidate_def)
    have "map_of ?m (itemId d) = None"
    proof (rule ccontr)
      assume "map_of ?m (itemId d) \<noteq> None"
      then obtain n where "map_of ?m (itemId d) = Some n" by auto
      then have "(d, n) \<in> set (written ?items qty)"
        by (simp only: allocated_iff [OF assms(1) d])
      then have "d \<in> set ?items" by (rule written_in_availableItems)
      with False show False by (simp add: set_availableItems)
    qed
    with d' have "d' = d" by (simp add: movedBy_def)
    with low show ?thesis by simp
  qed
qed

lemma release_row:
  assumes "primaryKey db" and "r \<in> set db"
  shows "releaseReservedInventory db (itemId r) q now =
           (if reservedQuantity r < q then (db, Inl InvalidArgument)
            else if \<not> (int4 (availableQuantity r + q) \<and> int4 (reservedQuantity r - q))
            then (db, Inl IntegerOutOfRange)
            else (map (\<lambda>x. if itemId x = itemId r
                            then x\<lparr>availableQuantity := availableQuantity r + q,
                                   reservedQuantity := reservedQuantity r - q,
                                   updatedAt := now\<rparr>
                            else x) db, Inr ()))"
proof -
  have "filter (\<lambda>x. itemId x = itemId r) db = [r]"
    using assms by (rule filter_primaryKey)
  then show ?thesis
    by (simp add: releaseReservedInventory_def updateWhereId_def)
qed

lemma primaryKey_moves: "primaryKey (map (movedBy now m) db) = primaryKey db"
  by (simp add: primaryKey_def o_def)

lemma reservation_allocated:
  assumes "primaryKey db" and "r \<in> set db"
    and "reserveInventory db pid n tid now = (db1, Inr rs)"
    and "e \<in> set rs" and "inventoryItemId e = itemId r"
  shows "(r, quantity e) \<in> set (written (availableItems db pid tid) n)"
proof -
  let ?al = "allocations (availableItems db pid tid) n"
  from assms(3) have "rs = map toReservation ?al" and ok: "list_all writable ?al"
    unfolding reserveInventory_allocations [OF assms(1)] Let_def
    by (simp_all split: if_splits)
  with assms(4) obtain a where a: "a \<in> set ?al" and e: "e = toReservation a" by auto
  from e assms(5) have id: "itemId (fst a) = itemId r" and q: "quantity e = snd a"
    by (simp_all add: toReservation_def)
  from a have "fst a \<in> fst ` set ?al" by (rule imageI)
  with allocations_in_table have "fst a \<in> set db" by (rule subsetD)
  with assms(1,2) id have "fst a = r"
    unfolding primaryKey_def by (simp add: same_id_same_row)
  with q have "a = (r, quantity e)" by (simp add: prod_eq_iff)
  with a have "(r, quantity e) \<in> set ?al" by simp
  then show ?thesis by (simp add: written_all [OF ok])
qed

lemma release_reverses_reserve:
  assumes "primaryKey db" and "r \<in> set db" and "0 \<le> reservedQuantity r"
    and "reserveInventory db pid n tid now1 = (db1, Inr rs)"
    and "e \<in> set rs" and "inventoryItemId e = itemId r"
    and "int4 (availableQuantity r)" and "int4 (reservedQuantity r)"
  shows "releaseReservedInventory db1 (itemId r) (quantity e) now =
           (map (\<lambda>x. if itemId x = itemId r then r\<lparr>updatedAt := now\<rparr> else x) db1, Inr ())"
proof -
  let ?m = "map (\<lambda>a. (itemId (fst a), snd a)) (written (availableItems db pid tid) n)"
  let ?r1 = "moved now1 (quantity e) r"
  from assms(4) have db1: "db1 = map (movedBy now1 ?m) db"
    using fst_reserveInventory [OF assms(1), of pid n tid now1] by simp
  have key1: "primaryKey db1"
    using assms(1) by (simp add: db1 primaryKey_moves)
  have "(r, quantity e) \<in> set (written (availableItems db pid tid) n)"
    using assms(1,2,4,5,6) by (rule reservation_allocated)
  then have "map_of ?m (itemId r) = Some (quantity e)"
    by (simp only: allocated_iff [OF assms(1,2)])
  then have "movedBy now1 ?m r = ?r1" by (simp add: movedBy_def)
  moreover have "movedBy now1 ?m r \<in> set db1"
    unfolding db1 set_map using assms(2) by (rule imageI)
  ultimately have r1: "?r1 \<in> set db1" by simp
  have guard: "\<not> reservedQuantity ?r1 < quantity e"
    using assms(3) by (simp add: moved_def)
  have range: "\<not> \<not> (int4 (availableQuantity ?r1 + quantity e)
                     \<and> int4 (reservedQuantity ?r1 - quantity e))"
    using assms(7,8) by (simp add: moved_def)
  have restored: "?r1\<lparr>availableQuantity := availableQuantity ?r1 + quantity e,
                       reservedQuantity := reservedQuantity ?r1 - quantity e,
                       updatedAt := now\<rparr> = r\<lparr>updatedAt := now\<rparr>"
    by (cases r) (simp add: moved_def)
  have "releaseReservedInventory db1 (itemId ?r1) (quantity e) now =
          (map (\<lambda>x. if itemId x = itemId ?r1
                     then x\<lparr>availableQuantity := availableQuantity ?r1 + quantity e,
                            reservedQuantity := reservedQuantity ?r1 - quantity e,
                            updatedAt := now\<rparr>
                     else x) db1, Inr ())"
    using guard range by (simp only: release_row [OF key1 r1] if_False)
  also have "map (\<lambda>x. if itemId x = itemId ?r1
                     then x\<lparr>availableQuantity := availableQuantity ?r1 + quantity e,
                            reservedQuantity := reservedQuantity ?r1 - quantity e,
                            updatedAt := now\<rparr>
                     else x) db1
           = map (\<lambda>x. if itemId x = itemId r then r\<lparr>updatedAt := now\<rparr> else x) db1"
  proof (rule map_cong [OF refl])
    fix x assume x: "x \<in> set db1"
    show "(if itemId x = itemId ?r1
           then x\<lparr>availableQuantity := availableQuantity ?r1 + quantity e,
                  reservedQuantity := reservedQuantity ?r1 - quantity e,
                  updatedAt := now\<rparr>
           else x)
          = (if itemId x = itemId r then r\<lparr>updatedAt := now\<rparr> else x)"
    proof (cases "itemId x = itemId r")
      case True
      then have "itemId x = itemId ?r1" by simp
      with key1 x r1 have "x = ?r1"
        unfolding primaryKey_def by (rule same_id_same_row)
      with True restored show ?thesis by simp
    next
      case False
      then show ?thesis by simp
    qed
  qed
  finally show ?thesis by simp
qed

lemma productStock_cong:
  assumes "map productId db' = map productId db"
    and "map (\<lambda>r. availableQuantity r + reservedQuantity r) db'
           = map (\<lambda>r. availableQuantity r + reservedQuantity r) db"
  shows "productStock pid db' = productStock pid db"
proof -
  from assms(1) have "length db' = length db" by (rule map_eq_imp_length_eq)
  then show ?thesis
    using assms
    by (induction db' db rule: list_induct2) (simp_all add: productStock_def)
qed

lemma reserve_row_sums:
  assumes "primaryKey db"
  shows "map (\<lambda>r. availableQuantity r + reservedQuantity r) (fst (reserveInventory db pid qty tid now))
           = map (\<lambda>r. availableQuantity r + reservedQuantity r) db"
    and "map productId (fst (reserveInventory db pid qty tid now)) = map productId db"
    and "primaryKey (fst (reserveInventory db pid qty tid now))"
  using assms
  by (simp_all add: fst_reserveInventory primaryKey_moves o_def movedBy_def moved_def
        split: option.split)

lemma updateWhereId_ids:
  "(\<And>x. itemId (f x) = itemId x) \<Longrightarrow> map itemId (updateWhereId i f db) = map itemId db"
  by (induction db) (simp_all add: updateWhereId_def)

lemma updateWhereId_products:
  "(\<And>x. productId (f x) = productId x) \<Longrightarrow>
     map productId (updateWhereId i f db) = map productId db"
  by (induction db) (simp_all add: updateWhereId_def)

lemma release_row_sums:
  assumes "primaryKey db"
  shows "map (\<lambda>r. availableQuantity r + reservedQuantity r) (fst (releaseReservedInventory db i q now))
           = map (\<lambda>r. availableQuantity r + reservedQuantity r) db"
    and "map productId (fst (releaseReservedInventory db i q now)) = map productId db"
    and "primaryKey (fst (releaseReservedInventory db i q now))"
proof -
  show "map productId (fst (releaseReservedInventory db i q now)) = map productId db"
    by (simp add: releaseReservedInventory_def updateWhereId_products split: list.split)
  show "primaryKey (fst (releaseReservedInventory db i q now))"
    using assms
    by (simp add: releaseReservedInventory_def updateWhereId_ids primaryKey_def split: list.split)
  show "map (\<lambda>r. availableQuantity r + reservedQuantity r) (fst (releaseReservedInventory db i q now))
           = map (\<lambda>r. availableQuantity r + reservedQuantity r) db"
  proof (cases "filter (\<lambda>r. itemId r = i) db")
    case Nil
    then show ?thesis by (simp add: releaseReservedInventory_def)
  next
    case (Cons item rest)
    then have "item \<in> set (filter (\<lambda>r. itemId r = i) db)" by simp
    then have item: "item \<in> set db" and i: "i = itemId item" by simp_all
    have same: "x = item" if "x \<in> set db" and "itemId x = itemId item" for x
      using assms that(1) item that(2) unfolding primaryKey_def by (rule same_id_same_row)
    show ?thesis
    proof (cases "reservedQuantity item < q")
      case True
      then show ?thesis
        unfolding i release_row [OF assms item] by simp
    next
      case False
      have "map (\<lambda>r. availableQuantity r + reservedQuantity r)
              (map (\<lambda>x. if itemId x = itemId item
                         then x\<lparr>availableQuantity := availableQuantity item + q,
                                reservedQuantity := reservedQuantity item - q,
                                updatedAt := now\<rparr>
                         else x) db)
            = map (\<lambda>r. availableQuantity r + reservedQuantity r) db"
        unfolding map_map
      proof (rule map_cong [OF refl])
        fix x assume "x \<in> set db"
        then show "((\<lambda>r. availableQuantity r + reservedQuantity r) \<circ>
                (\<lambda>x. if itemId x = itemId item
                      then x\<lparr>availableQuantity := availableQuantity item + q,
                             reservedQuantity := reservedQuantity item - q,
                             updatedAt := now\<rparr>
                      else x)) x
              = availableQuantity x + reservedQuantity x"
          using same [of x] by auto
      qed
      with False show ?thesis
        unfolding i release_row [OF assms item] by simp
    qed
  qed
qed

lemma productStock_Nil [simp]: "productStock pid [] = 0"
  by (simp add: productStock_def)

lemma productStock_Cons [simp]:
  "productStock pid (a # db)
     = (if productId a = pid then availableQuantity a + reservedQuantity a else 0)
       + productStock pid db"
  by (simp add: productStock_def)

lemma updateWhereId_absent: "i \<notin> itemId ` set db \<Longrightarrow> updateWhereId i f db = db"
  unfolding updateWhereId_def by (rule map_idI) (auto simp: image_iff)

lemma productStock_update:
  assumes "distinct (map itemId db)" and "item \<in> set db"
  shows "productStock pid
           (updateWhereId (itemId item) (\<lambda>x. x\<lparr>availableQuantity := n, updatedAt := now\<rparr>) db)
         = productStock pid db + (if productId item = pid then n - availableQuantity item else 0)"
  using assms
proof (induction db)
  case Nil
  then show ?case by simp
next
  case (Cons a db)
  from Cons.prems(1) have fresh: "itemId a \<notin> itemId ` set db" and dist: "distinct (map itemId db)"
    by simp_all
  show ?case
  proof (cases "a = item")
    case True
    with fresh have "updateWhereId (itemId item)
                       (\<lambda>x. x\<lparr>availableQuantity := n, updatedAt := now\<rparr>) db = db"
      by (simp add: updateWhereId_absent)
    then have "updateWhereId (itemId item)
                 (\<lambda>x. x\<lparr>availableQuantity := n, updatedAt := now\<rparr>) (a # db)
               = (item\<lparr>availableQuantity := n, updatedAt := now\<rparr>) # db"
      using True by (simp add: updateWhereId_def)
    with True show ?thesis by simp
  next
    case False
    with Cons.prems(2) have mem: "item \<in> set db" by simp
    then have "itemId item \<in> itemId ` set db" by (rule imageI)
    with fresh have ne: "itemId a \<noteq> itemId item" by metis
    have "updateWhereId (itemId item)
            (\<lambda>x. x\<lparr>availableQuantity := n, updatedAt := now\<rparr>) (a # db)
          = a # updateWhereId (itemId item)
                  (\<lambda>x. x\<lparr>availableQuantity := n, updatedAt := now\<rparr>) db"
      using ne by (simp add: updateWhereId_def)
    with Cons.IH [OF dist mem] show ?thesis by simp
  qed
qed

lemma adjust_cases:
  "adjust isUuid db tid i d now = (db, Inl InvalidArgument)
   \<or> adjust isUuid db tid i d now = (db, Inl NotFound)
   \<or> adjust isUuid db tid i d now = (db, Inl InsufficientStockForAdjustment)
   \<or> (\<exists>item. item \<in> set db \<and> itemId item = i \<and>
         adjust isUuid db tid i d now
           = (updateWhereId i
                (\<lambda>x. x\<lparr>availableQuantity :=
                          availableQuantity item
                            + (if adjustmentType d = ''increase'' then adjQuantity d
                               else - adjQuantity d),
                        updatedAt := now\<rparr>) db,
              Inr (find (\<lambda>r. itemId r = i)
                     (updateWhereId i
                        (\<lambda>x. x\<lparr>availableQuantity :=
                                  availableQuantity item
                                    + (if adjustmentType d = ''increase'' then adjQuantity d
                                       else - adjQuantity d),
                                updatedAt := now\<rparr>) db))))"
proof (cases "filter (\<lambda>r. itemId r = i \<and> tenantId r = tid) db")
  case Nil
  then show ?thesis by (simp add: adjust_def)
next
  case (Cons item rest)
  then have "item \<in> set (filter (\<lambda>r. itemId r = i \<and> tenantId r = tid) db)" by simp
  then have "item \<in> set db" and "itemId item = i" by simp_all
  then show ?thesis
    using Cons by (auto simp add: adjust_def Let_def)
qed

lemma adjust_stock:
  assumes "primaryKey db"
  shows "productStock pid (fst (adjust isUuid db tid i d now))
           = productStock pid db + adjustedBy isUuid pid db (Adjust tid i d, now)"
    and "primaryKey (fst (adjust isUuid db tid i d now))"
proof -
  from assms have dist: "distinct (map itemId db)" by (simp add: primaryKey_def)
  consider (failed) e where "adjust isUuid db tid i d now = (db, Inl e)"
    | (adjusted) item r where "item \<in> set db" and "itemId item = i"
        and "adjust isUuid db tid i d now
           = (updateWhereId i
                (\<lambda>x. x\<lparr>availableQuantity :=
                          availableQuantity item
                            + (if adjustmentType d = ''increase'' then adjQuantity d
                               else - adjQuantity d),
                        updatedAt := now\<rparr>) db, Inr r)"
    using adjust_cases [of isUuid db tid i d now] by metis
  then have "productStock pid (fst (adjust isUuid db tid i d now))
           = productStock pid db + adjustedBy isUuid pid db (Adjust tid i d, now)
         \<and> primaryKey (fst (adjust isUuid db tid i d now))"
  proof cases
    case failed
    with assms show ?thesis by simp
  next
    case adjusted
    have ex: "list_ex (\<lambda>r. itemId r = i \<and> productId r = pid) db = (productId item = pid)"
    proof
      assume "list_ex (\<lambda>r. itemId r = i \<and> productId r = pid) db"
      then obtain x where x: "x \<in> set db" and "itemId x = i" and p: "productId x = pid"
        by (auto simp: list_ex_iff)
      with adjusted(2) have "itemId x = itemId item" by simp
      with dist x adjusted(1) have "x = item" by (rule same_id_same_row)
      with p show "productId item = pid" by simp
    next
      assume "productId item = pid"
      with adjusted(1,2) show "list_ex (\<lambda>r. itemId r = i \<and> productId r = pid) db"
        unfolding list_ex_iff by (intro bexI [of _ item]) simp_all
    qed
    have "productStock pid (fst (adjust isUuid db tid i d now))
        = productStock pid db
          + (if productId item = pid
             then (if adjustmentType d = ''increase'' then adjQuantity d else - adjQuantity d)
             else 0)"
      using productStock_update [OF dist adjusted(1), where pid = pid and now = now] adjusted(2)
      by (simp add: adjusted(3))
    moreover have "primaryKey (fst (adjust isUuid db tid i d now))"
      using dist by (simp add: adjusted(3) primaryKey_def updateWhereId_ids)
    ultimately show ?thesis
      by (simp add: adjusted(3) ex)
  qed
  then show "productStock pid (fst (adjust isUuid db tid i d now))
           = productStock pid db + adjustedBy isUuid pid db (Adjust tid i d, now)"
    and "primaryKey (fst (adjust isUuid db tid i d now))"
    by simp_all
qed

lemma perform_stock:
  assumes "primaryKey db"
  shows "productStock pid (perform isUuid db c) = productStock pid db + adjustedBy isUuid pid db c"
    and "primaryKey (perform isUuid db c)"
proof -
  obtain cl now where c: "c = (cl, now)" by (cases c)
  have "productStock pid (perform isUuid db c) = productStock pid db + adjustedBy isUuid pid db c
        \<and> primaryKey (perform isUuid db c)"
  proof (cases cl)
    case (Reserve p q t)
    have "productStock pid (fst (reserveInventory db p q t now)) = productStock pid db"
      using reserve_row_sums(2,1) [OF assms] by (rule productStock_cong)
    with c Reserve assms show ?thesis
      by (simp add: reserve_row_sums(3))
  next
    case (Release i q)
    have "productStock pid (fst (releaseReservedInventory db i q now)) = productStock pid db"
      using release_row_sums(2,1) [OF assms] by (rule productStock_cong)
    with c Release assms show ?thesis
      by (simp add: release_row_sums(3))
  next
    case (Adjust t i d)
    with c assms show ?thesis
      using adjust_stock(1) [OF assms, where pid = pid and isUuid = isUuid and tid = t
                                and i = i and d = d and now = now]
            adjust_stock(2) [OF assms, where isUuid = isUuid and tid = t
                                and i = i and d = d and now = now]
      by simp
  qed
  then show "productStock pid (perform isUuid db c) = productStock pid db + adjustedBy isUuid pid db c"
    and "primaryKey (perform isUuid db c)"
    by simp_all
qed

lemma performAll_stock:
  "primaryKey db \<Longrightarrow>
     productStock pid (foldl (perform isUuid) db calls)
       = productStock pid db + netAdjusted isUuid pid db calls"
proof (induction calls arbitrary: db)
  case Nil
  then show ?case by simp
next
  case (Cons c cs)
  from Cons.prems have key: "primaryKey (perform isUuid db c)"
    by (rule perform_stock)
  from Cons.IH [OF key] perform_stock(1) [OF Cons.prems, of pid isUuid c]
  show ?case by simp
qed

section \<open>Verified properties\<close>

subsection \<open>Shortfall\<close>




subsection \<open>First expired, first out\<close>

text \<open>
  Claim C2. The candidate rows are taken in ascending order of expiry date, undated rows
  after all dated ones. Whatever the outcome of the call: for every split of that order
  into an earlier and a later part, if a row of the later part has lost available units,
  every row of the earlier part is left with none; and if an undated row has lost
  available units, no dated row of the product and tenant has any left. With the rows
  2024-01-01: 5, 2024-06-01: 10 and undated: 20, reserving 8 takes 5 and 3 and leaves
  0, 7 and 20 available, also when the table stores the rows in the opposite order.
\<close>

theorem reserve_fefo:
  assumes "primaryKey db" and "reserveInventory db pid qty tid now = (db', res)"
  shows "sorted_wrt (\<lambda>a b. case expiryDate a of
                              None \<Rightarrow> expiryDate b = None
                            | Some x \<Rightarrow> (case expiryDate b of None \<Rightarrow> True | Some y \<Rightarrow> x \<le> y))
           (availableItems db pid tid)
       \<and> (\<forall>xs ys. availableItems db pid tid = xs @ ys \<longrightarrow>
            (\<forall>r \<in> set ys. \<forall>r' \<in> set db'.
               itemId r' = itemId r \<and> availableQuantity r' \<noteq> availableQuantity r \<longrightarrow>
               (\<forall>d \<in> set xs. \<forall>d' \<in> set db'. itemId d' = itemId d \<longrightarrow> availableQuantity d' = 0)))
       \<and> (\<forall>r \<in> set db. \<forall>r' \<in> set db'.
            expiryDate r = None \<and> itemId r' = itemId r
              \<and> availableQuantity r' \<noteq> availableQuantity r \<longrightarrow>
            (\<forall>d' \<in> set db'. productId d' = pid \<and> tenantId d' = tid \<and> expiryDate d' \<noteq> None
               \<longrightarrow> availableQuantity d' \<le> 0))
       \<and> map availableQuantity (fst (reserveInventory fefoExample ''product-1'' 8 ''tenant-1'' at))
           = [0, 7, 20]
       \<and> snd (reserveInventory fefoExample ''product-1'' 8 ''tenant-1'' at)
           = Inr [\<lparr>inventoryItemId = ''item-1'', quantity = 5\<rparr>,
                  \<lparr>inventoryItemId = ''item-2'', quantity = 3\<rparr>]
       \<and> map availableQuantity
             (fst (reserveInventory (rev fefoExample) ''product-1'' 8 ''tenant-1'' at))
           = [20, 7, 0]"
proof -
  from assms(2) have db': "db' = fst (reserveInventory db pid qty tid now)" by simp
  have order: "sorted_wrt (\<lambda>a b. case expiryDate a of
                              None \<Rightarrow> expiryDate b = None
                            | Some x \<Rightarrow> (case expiryDate b of None \<Rightarrow> True | Some y \<Rightarrow> x \<le> y))
           (availableItems db pid tid)"
    using sorted_availableItems [of db pid tid]
    by (simp only: sorted_map expiry_order)
  have earlier: "\<forall>xs ys. availableItems db pid tid = xs @ ys \<longrightarrow>
            (\<forall>r \<in> set ys. \<forall>r' \<in> set db'.
               itemId r' = itemId r \<and> availableQuantity r' \<noteq> availableQuantity r \<longrightarrow>
               (\<forall>d \<in> set xs. \<forall>d' \<in> set db'. itemId d' = itemId d \<longrightarrow> availableQuantity d' = 0))"
    unfolding db' using earlier_rows_drained [OF assms(1)] by (intro allI impI ballI) (elim conjE)
  have nulls: "\<forall>r \<in> set db. \<forall>r' \<in> set db'.
            expiryDate r = None \<and> itemId r' = itemId r
              \<and> availableQuantity r' \<noteq> availableQuantity r \<longrightarrow>
            (\<forall>d' \<in> set db'. productId d' = pid \<and> tenantId d' = tid \<and> expiryDate d' \<noteq> None
               \<longrightarrow> availableQuantity d' \<le> 0)"
    unfolding db' using dated_rows_drained [OF assms(1)] by (intro allI impI ballI) (elim conjE)
  have example: "reserveInventory fefoExample ''product-1'' 8 ''tenant-1'' at =
    ([(exampleItem ''item-1'' ''tenant-1'' ''product-1'' 0 5 (Some (2024, 1, 1)))\<lparr>updatedAt := at\<rparr>,
      (exampleItem ''item-2'' ''tenant-1'' ''product-1'' 7 3 (Some (2024, 6, 1)))\<lparr>updatedAt := at\<rparr>,
      exampleItem ''item-3'' ''tenant-1'' ''product-1'' 20 0 None],
     Inr [\<lparr>inventoryItemId = ''item-1'', quantity = 5\<rparr>,
          \<lparr>inventoryItemId = ''item-2'', quantity = 3\<rparr>])"
    by (simp add: reserveInventory_def availableItems_fefoExample)
       (simp add: fefoExample_def exampleItem_def updateWhereId_def int4_def)
  have quantities: "map availableQuantity (fst (reserveInventory fefoExample ''product-1'' 8 ''tenant-1'' at))
           = [0, 7, 20]"
    unfolding example by (simp add: exampleItem_def)
  have entries: "snd (reserveInventory fefoExample ''product-1'' 8 ''tenant-1'' at)
           = Inr [\<lparr>inventoryItemId = ''item-1'', quantity = 5\<rparr>,
                  \<lparr>inventoryItemId = ''item-2'', quantity = 3\<rparr>]"
    unfolding example by simp
  have reversed: "map availableQuantity
             (fst (reserveInventory (rev fefoExample) ''product-1'' 8 ''tenant-1'' at))
           = [20, 7, 0]"
    by (simp add: reserveInventory_def availableItems_fefoExample_rev)
       (simp add: fefoExample_def exampleItem_def updateWhereId_def int4_def)
  from order earlier nulls quantities entries reversed show ?thesis by (intro conjI)
qed

text \<open>Claim C2, witness: reserving 18 of the example reaches the undated row, and
  the dated rows are empty.\<close>

theorem reserve_fefo_witness:
  "primaryKey fefoExample
   \<and> reserveInventory fefoExample ''product-1'' 18 ''tenant-1'' 7
       = ([(exampleItem ''item-1'' ''tenant-1'' ''product-1'' 0 5 (Some (2024, 1, 1)))
              \<lparr>updatedAt := 7\<rparr>,
           (exampleItem ''item-2'' ''tenant-1'' ''product-1'' 0 10 (Some (2024, 6, 1)))
              \<lparr>updatedAt := 7\<rparr>,
           (exampleItem ''item-3'' ''tenant-1'' ''product-1'' 17 3 None)\<lparr>updatedAt := 7\<rparr>],
          Inr [\<lparr>inventoryItemId = ''item-1'', quantity = 5\<rparr>,
               \<lparr>inventoryItemId = ''item-2'', quantity = 10\<rparr>,
               \<lparr>inventoryItemId = ''item-3'', quantity = 3\<rparr>])
   \<and> availableQuantity ((exampleItem ''item-2'' ''tenant-1'' ''product-1'' 0 10
                            (Some (2024, 6, 1)))\<lparr>updatedAt := 7\<rparr>) \<le> 0"
proof -
  let ?r = "exampleItem ''item-3'' ''tenant-1'' ''product-1'' 20 0 None"
  let ?r' = "(exampleItem ''item-3'' ''tenant-1'' ''product-1'' 17 3 None)\<lparr>updatedAt := 7\<rparr>"
  let ?d' = "(exampleItem ''item-2'' ''tenant-1'' ''product-1'' 0 10
                (Some (2024, 6, 1)))\<lparr>updatedAt := 7\<rparr>"
  have key: "primaryKey fefoExample"
    by (simp add: primaryKey_def fefoExample_def exampleItem_def)
  have run: "reserveInventory fefoExample ''product-1'' 18 ''tenant-1'' 7
       = ([(exampleItem ''item-1'' ''tenant-1'' ''product-1'' 0 5 (Some (2024, 1, 1)))
              \<lparr>updatedAt := 7\<rparr>, ?d', ?r'],
          Inr [\<lparr>inventoryItemId = ''item-1'', quantity = 5\<rparr>,
               \<lparr>inventoryItemId = ''item-2'', quantity = 10\<rparr>,
               \<lparr>inventoryItemId = ''item-3'', quantity = 3\<rparr>])"
    by (simp add: reserveInventory_def availableItems_fefoExample)
       (simp add: fefoExample_def exampleItem_def updateWhereId_def int4_def)
  note fefo = reserve_fefo [OF key run]
  from fefo have nulls: "\<forall>r \<in> set fefoExample.
      \<forall>r' \<in> set [(exampleItem ''item-1'' ''tenant-1'' ''product-1'' 0 5 (Some (2024, 1, 1)))
                     \<lparr>updatedAt := 7\<rparr>, ?d', ?r'].
            expiryDate r = None \<and> itemId r' = itemId r
              \<and> availableQuantity r' \<noteq> availableQuantity r \<longrightarrow>
            (\<forall>d' \<in> set [(exampleItem ''item-1'' ''tenant-1'' ''product-1'' 0 5 (Some (2024, 1, 1)))
                     \<lparr>updatedAt := 7\<rparr>, ?d', ?r'].
               productId d' = ''product-1'' \<and> tenantId d' = ''tenant-1'' \<and> expiryDate d' \<noteq> None
               \<longrightarrow> availableQuantity d' \<le> 0)"
    by (rule conjunct1 [OF conjunct2 [OF conjunct2]])
  have r: "?r \<in> set fefoExample" by (simp add: fefoExample_def)
  have r': "?r' \<in> set [(exampleItem ''item-1'' ''tenant-1'' ''product-1'' 0 5 (Some (2024, 1, 1)))
                     \<lparr>updatedAt := 7\<rparr>, ?d', ?r']" by simp
  have d': "?d' \<in> set [(exampleItem ''item-1'' ''tenant-1'' ''product-1'' 0 5 (Some (2024, 1, 1)))
                     \<lparr>updatedAt := 7\<rparr>, ?d', ?r']" by simp
  have changed: "expiryDate ?r = None \<and> itemId ?r' = itemId ?r
              \<and> availableQuantity ?r' \<noteq> availableQuantity ?r"
    by (simp add: exampleItem_def)
  have dated: "productId ?d' = ''product-1'' \<and> tenantId ?d' = ''tenant-1'' \<and> expiryDate ?d' \<noteq> None"
    by (simp add: exampleItem_def)
  have "availableQuantity ?d' \<le> 0"
    by (rule mp [OF bspec [OF mp [OF bspec [OF bspec [OF nulls r] r'] changed] d'] dated])
  with key run show ?thesis by (intro conjI)
qed

subsection \<open>Conservation\<close>

text \<open>
  Claim C3. On a table with unique ids, after any sequence of reserve, release and adjust
  calls the stock of a product is its initial stock plus the signed quantities of the
  successful adjustments of its rows; and a reserve or a release, whatever its outcome,
  leaves \<open>availableQuantity + reservedQuantity\<close> of every single row unchanged.
\<close>

theorem conservation:
  assumes "primaryKey db"
  shows "productStock pid (foldl (perform isUuid) db calls)
           = productStock pid db + netAdjusted isUuid pid db calls
       \<and> map (\<lambda>r. availableQuantity r + reservedQuantity r)
             (fst (reserveInventory db p qty tid now))
           = map (\<lambda>r. availableQuantity r + reservedQuantity r) db
       \<and> map (\<lambda>r. availableQuantity r + reservedQuantity r)
             (fst (releaseReservedInventory db i q now))
           = map (\<lambda>r. availableQuantity r + reservedQuantity r) db"
  using performAll_stock [OF assms] reserve_row_sums(1) [OF assms] release_row_sums(1) [OF assms]
  by simp

text \<open>Claim C3, witness: a reservation, a successful increase by 4, a release and
  a refused decrease take the stock of the example from 35 to 39.\<close>

theorem conservation_witness:
  "primaryKey fefoExample
   \<and> productStock ''product-1'' fefoExample = 35
   \<and> netAdjusted (\<lambda>i. True) ''product-1'' fefoExample exampleCalls = 4
   \<and> productStock ''product-1'' (foldl (perform (\<lambda>i. True)) fefoExample exampleCalls) = 39"
proof -
  have key: "primaryKey fefoExample"
    by (simp add: primaryKey_def fefoExample_def exampleItem_def)
  have before: "productStock ''product-1'' fefoExample = 35"
    by (simp add: fefoExample_def exampleItem_def)
  have step1: "perform (\<lambda>i. True) fefoExample (Reserve ''product-1'' 8 ''tenant-1'', 1)
      = [(exampleItem ''item-1'' ''tenant-1'' ''product-1'' 0 5 (Some (2024, 1, 1)))
              \<lparr>updatedAt := 1\<rparr>,
           (exampleItem ''item-2'' ''tenant-1'' ''product-1'' 7 3 (Some (2024, 6, 1)))
              \<lparr>updatedAt := 1\<rparr>,
           exampleItem ''item-3'' ''tenant-1'' ''product-1'' 20 0 None]"
    by (simp add: reserveInventory_def availableItems_fefoExample)
       (simp add: fefoExample_def exampleItem_def updateWhereId_def int4_def)
  have net: "netAdjusted (\<lambda>i. True) ''product-1'' fefoExample exampleCalls = 4"
    unfolding exampleCalls_def netAdjusted.simps step1
    by (simp add: adjust_def inventoryAdjustmentSchema_def exampleItem_def updateWhereId_def
          releaseReservedInventory_def Let_def int4_def)
  from conservation [OF key, of "''product-1''" "\<lambda>i. True" exampleCalls]
  have "productStock ''product-1'' (foldl (perform (\<lambda>i. True)) fefoExample exampleCalls)
          = productStock ''product-1'' fefoExample
            + netAdjusted (\<lambda>i. True) ''product-1'' fefoExample exampleCalls"
    by (rule conjunct1)
  with before net
  have "productStock ''product-1'' (foldl (perform (\<lambda>i. True)) fefoExample exampleCalls) = 39"
    by simp
  with key before net show ?thesis by (intro conjI)
qed

subsection \<open>Greedy consumption\<close>

text \<open>
  Claim C4. A successful reservation of a positive quantity returns a non-empty list
  whose quantities add up to the quantity requested. Its entries follow the candidate
  rows in order, the \<open>k\<close>-th entry takes from the \<open>k\<close>-th candidate the minimum of the
  demand that remains and the row's available quantity, and the table afterwards is the
  table before with, in each row named by an entry, that amount moved from available to
  reserved.
\<close>

theorem reserve_success:
  assumes "primaryKey db" and "0 < qty"
    and "reserveInventory db pid qty tid now = (db', Inr rs)"
  shows "rs \<noteq> [] \<and> sum_list (map quantity rs) = qty
       \<and> length rs \<le> length (availableItems db pid tid)
       \<and> (\<forall>k < length rs.
             inventoryItemId (rs ! k) = itemId (availableItems db pid tid ! k)
             \<and> quantity (rs ! k)
                 = min (qty - sum_list (map quantity (take k rs)))
                       (availableQuantity (availableItems db pid tid ! k)))
       \<and> distinct (map inventoryItemId rs)
       \<and> db' = map (\<lambda>r. case map_of (map (\<lambda>e. (inventoryItemId e, quantity e)) rs) (itemId r) of
                           None \<Rightarrow> r
                         | Some n \<Rightarrow> r\<lparr>availableQuantity := availableQuantity r - n,
                                        reservedQuantity := reservedQuantity r + n,
                                        updatedAt := now\<rparr>) db"
proof -
  let ?items = "availableItems db pid tid"
  let ?al = "allocations ?items qty"
  from assms(3) have ok: "list_all writable ?al"
    and stop: "\<not> 0 < qty - sum_list (map snd ?al)"
    and moves: "db' = map (movedBy now (map (\<lambda>a. (itemId (fst a), snd a))
                        (written ?items qty))) db"
    and rs: "rs = map toReservation ?al"
    unfolding reserveInventory_allocations [OF assms(1)] Let_def
    by (simp_all split: if_splits)
  from moves have db': "db' = map (movedBy now (map (\<lambda>a. (itemId (fst a), snd a)) ?al)) db"
    by (simp only: written_all [OF ok])
  have quantities: "map quantity rs = map snd ?al"
    by (simp add: rs toReservation_def o_def)
  have ids: "map inventoryItemId rs = map itemId (map fst ?al)"
    by (simp add: rs toReservation_def o_def)
  have pairs: "map (\<lambda>e. (inventoryItemId e, quantity e)) rs = map (\<lambda>a. (itemId (fst a), snd a)) ?al"
    by (simp add: rs toReservation_def o_def)
  have len: "length rs = length ?al"
    by (simp add: rs)
  have "sum_list (map snd ?al) \<le> qty"
    using assms(2) by (intro allocations_sum_le) simp
  with stop have total: "sum_list (map snd ?al) = qty" by simp
  have nonempty: "rs \<noteq> []"
  proof
    assume "rs = []"
    with len have "?al = []" by simp
    with total assms(2) show False by simp
  qed
  have "length (map fst ?al) = length (take (length ?al) ?items)"
    by (simp only: allocations_prefix [symmetric])
  then have bound: "length ?al \<le> length ?items" by simp
  have greedy: "inventoryItemId (rs ! k) = itemId (?items ! k)
             \<and> quantity (rs ! k)
                 = min (qty - sum_list (map quantity (take k rs)))
                       (availableQuantity (?items ! k))" if k: "k < length rs" for k
  proof -
    from k len have k': "k < length ?al" by simp
    have "inventoryItemId (rs ! k) = map inventoryItemId rs ! k"
      using k by simp
    also have "\<dots> = itemId (map fst ?al ! k)"
      using k' by (simp add: ids)
    also have "map fst ?al ! k = ?items ! k"
      using k' by (simp add: allocations_prefix)
    finally have a: "inventoryItemId (rs ! k) = itemId (?items ! k)" .
    have "quantity (rs ! k) = map quantity rs ! k"
      using k by simp
    also have "\<dots> = snd (?al ! k)"
      using k' by (simp add: quantities)
    also have "\<dots> = min (qty - sum_list (map snd (take k ?al))) (availableQuantity (?items ! k))"
      using k' by (rule allocations_nth)
    also have "map snd (take k ?al) = map quantity (take k rs)"
      by (simp add: take_map [symmetric] quantities)
    finally show ?thesis using a by simp
  qed
  have dist: "distinct (map inventoryItemId rs)"
    using allocations_distinct [OF distinct_availableItems [OF assms(1)], of pid tid qty]
    by (simp add: ids o_def)
  have rows: "db' = map (\<lambda>r. case map_of (map (\<lambda>e. (inventoryItemId e, quantity e)) rs) (itemId r) of
                           None \<Rightarrow> r
                         | Some n \<Rightarrow> r\<lparr>availableQuantity := availableQuantity r - n,
                                        reservedQuantity := reservedQuantity r + n,
                                        updatedAt := now\<rparr>) db"
    unfolding db' pairs by (simp add: movedBy_def [abs_def] moved_def split: option.split)
  from nonempty total bound greedy dist rows show ?thesis
    by (simp add: quantities len)
qed

text \<open>Claim C4, witness: reserving 8 of the example.\<close>

theorem reserve_success_witness:
  "primaryKey fefoExample \<and> (0::int) < 8
   \<and> reserveInventory fefoExample ''product-1'' 8 ''tenant-1'' 7
       = ([(exampleItem ''item-1'' ''tenant-1'' ''product-1'' 0 5 (Some (2024, 1, 1)))
              \<lparr>updatedAt := 7\<rparr>,
           (exampleItem ''item-2'' ''tenant-1'' ''product-1'' 7 3 (Some (2024, 6, 1)))
              \<lparr>updatedAt := 7\<rparr>,
           exampleItem ''item-3'' ''tenant-1'' ''product-1'' 20 0 None],
          Inr [\<lparr>inventoryItemId = ''item-1'', quantity = 5\<rparr>,
               \<lparr>inventoryItemId = ''item-2'', quantity = 3\<rparr>])
   \<and> sum_list (map quantity [\<lparr>inventoryItemId = ''item-1'', quantity = 5\<rparr>,
                               \<lparr>inventoryItemId = ''item-2'', quantity = 3\<rparr>]) = 8"
proof -
  have key: "primaryKey fefoExample"
    by (simp add: primaryKey_def fefoExample_def exampleItem_def)
  have run: "reserveInventory fefoExample ''product-1'' 8 ''tenant-1'' 7
       = ([(exampleItem ''item-1'' ''tenant-1'' ''product-1'' 0 5 (Some (2024, 1, 1)))
              \<lparr>updatedAt := 7\<rparr>,
           (exampleItem ''item-2'' ''tenant-1'' ''product-1'' 7 3 (Some (2024, 6, 1)))
              \<lparr>updatedAt := 7\<rparr>,
           exampleItem ''item-3'' ''tenant-1'' ''product-1'' 20 0 None],
          Inr [\<lparr>inventoryItemId = ''item-1'', quantity = 5\<rparr>,
               \<lparr>inventoryItemId = ''item-2'', quantity = 3\<rparr>])"
    by (simp add: reserveInventory_def availableItems_fefoExample)
       (simp add: fefoExample_def exampleItem_def updateWhereId_def int4_def)
  have pos: "(0::int) < 8" by simp
  from reserve_success [OF key pos run]
  have "sum_list (map quantity [\<lparr>inventoryItemId = ''item-1'', quantity = 5\<rparr>,
                               \<lparr>inventoryItemId = ''item-2'', quantity = 3\<rparr>]) = 8"
    by (rule conjunct1 [OF conjunct2])
  with key pos run show ?thesis by (intro conjI)
qed

subsection \<open>Release\<close>

text \<open>
  Claim C5, as amended. Releasing more than the row has reserved fails with
  \<open>InvalidArgument\<close> and leaves the table as it was. Otherwise, when the new available
  and reserved quantities are in the range of the \<open>integer\<close> column, the release moves
  the quantity from reserved to available in that row and changes no other row; when one
  of them is not, the store refuses the update and the table is as it was. After a
  successful reservation on a row with quantities in range, the release of an entry's
  quantity on the entry's row gives the row back as it was before the reservation, up
  to \<open>updatedAt\<close>.
\<close>

theorem release_contract:
  assumes "primaryKey db" and "r \<in> set db"
  shows "(reservedQuantity r < q \<longrightarrow>
            releaseReservedInventory db (itemId r) q now = (db, Inl InvalidArgument))
       \<and> (q \<le> reservedQuantity r
            \<and> int4 (availableQuantity r + q) \<and> int4 (reservedQuantity r - q) \<longrightarrow>
            releaseReservedInventory db (itemId r) q now =
              (map (\<lambda>x. if itemId x = itemId r
                         then x\<lparr>availableQuantity := availableQuantity r + q,
                                reservedQuantity := reservedQuantity r - q,
                                updatedAt := now\<rparr>
                         else x) db, Inr ()))
       \<and> (q \<le> reservedQuantity r
            \<and> \<not> (int4 (availableQuantity r + q) \<and> int4 (reservedQuantity r - q)) \<longrightarrow>
            releaseReservedInventory db (itemId r) q now = (db, Inl IntegerOutOfRange))
       \<and> (0 \<le> reservedQuantity r \<and> int4 (availableQuantity r) \<and> int4 (reservedQuantity r)
            \<and> reserveInventory db pid n tid now1 = (db1, Inr rs)
            \<and> e \<in> set rs \<and> inventoryItemId e = itemId r \<longrightarrow>
            releaseReservedInventory db1 (itemId r) (quantity e) now =
              (map (\<lambda>x. if itemId x = itemId r then r\<lparr>updatedAt := now\<rparr> else x) db1, Inr ()))"
proof -
  have reversal: "0 \<le> reservedQuantity r \<and> int4 (availableQuantity r) \<and> int4 (reservedQuantity r)
            \<and> reserveInventory db pid n tid now1 = (db1, Inr rs)
            \<and> e \<in> set rs \<and> inventoryItemId e = itemId r \<longrightarrow>
            releaseReservedInventory db1 (itemId r) (quantity e) now =
              (map (\<lambda>x. if itemId x = itemId r then r\<lparr>updatedAt := now\<rparr> else x) db1, Inr ())"
    using release_reverses_reserve [OF assms, of pid n tid now1 db1 rs e now] by simp
  show ?thesis
    using release_row [OF assms, of q now] reversal by simp
qed

text \<open>Claim C5, witness: a row with 5 reserved units refuses a release of 6 and
  accepts one of 3; the store refuses a release that would leave 2147483648 available
  units; releasing the 3 units reserved on the second row of the example restores its
  10 available units.\<close>

theorem release_contract_witness:
  "primaryKey [exampleItem ''item-1'' ''tenant-1'' ''product-1'' 2 5 None]
   \<and> releaseReservedInventory [exampleItem ''item-1'' ''tenant-1'' ''product-1'' 2 5 None]
        ''item-1'' 6 9
       = ([exampleItem ''item-1'' ''tenant-1'' ''product-1'' 2 5 None], Inl InvalidArgument)
   \<and> releaseReservedInventory [exampleItem ''item-1'' ''tenant-1'' ''product-1'' 2 5 None]
        ''item-1'' 3 9
       = ([(exampleItem ''item-1'' ''tenant-1'' ''product-1'' 5 2 None)\<lparr>updatedAt := 9\<rparr>],
          Inr ())
   \<and> releaseReservedInventory [exampleItem ''item-9'' ''tenant-1'' ''product-1'' 2147483647 1 None] ''item-9'' 1 9
       = ([exampleItem ''item-9'' ''tenant-1'' ''product-1'' 2147483647 1 None], Inl IntegerOutOfRange)
   \<and> primaryKey fefoExample
   \<and> reserveInventory fefoExample ''product-1'' 8 ''tenant-1'' 7
       = ([(exampleItem ''item-1'' ''tenant-1'' ''product-1'' 0 5 (Some (2024, 1, 1)))
              \<lparr>updatedAt := 7\<rparr>,
           (exampleItem ''item-2'' ''tenant-1'' ''product-1'' 7 3 (Some (2024, 6, 1)))
              \<lparr>updatedAt := 7\<rparr>,
           exampleItem ''item-3'' ''tenant-1'' ''product-1'' 20 0 None],
          Inr [\<lparr>inventoryItemId = ''item-1'', quantity = 5\<rparr>,
               \<lparr>inventoryItemId = ''item-2'', quantity = 3\<rparr>])
   \<and> releaseReservedInventory
        [(exampleItem ''item-1'' ''tenant-1'' ''product-1'' 0 5 (Some (2024, 1, 1)))
              \<lparr>updatedAt := 7\<rparr>,
         (exampleItem ''item-2'' ''tenant-1'' ''product-1'' 7 3 (Some (2024, 6, 1)))
              \<lparr>updatedAt := 7\<rparr>,
         exampleItem ''item-3'' ''tenant-1'' ''product-1'' 20 0 None]
        ''item-2'' 3 9
       = ([(exampleItem ''item-1'' ''tenant-1'' ''product-1'' 0 5 (Some (2024, 1, 1)))
              \<lparr>updatedAt := 7\<rparr>,
           (exampleItem ''item-2'' ''tenant-1'' ''product-1'' 10 0 (Some (2024, 6, 1)))
              \<lparr>updatedAt := 9\<rparr>,
           exampleItem ''item-3'' ''tenant-1'' ''product-1'' 20 0 None],
          Inr ())"
proof -
  let ?one = "exampleItem ''item-1'' ''tenant-1'' ''product-1'' 2 5 None"
  let ?two = "exampleItem ''item-2'' ''tenant-1'' ''product-1'' 10 0 (Some (2024, 6, 1))"
  let ?db1 = "[(exampleItem ''item-1'' ''tenant-1'' ''product-1'' 0 5 (Some (2024, 1, 1)))
              \<lparr>updatedAt := 7\<rparr>,
           (exampleItem ''item-2'' ''tenant-1'' ''product-1'' 7 3 (Some (2024, 6, 1)))
              \<lparr>updatedAt := 7\<rparr>,
           exampleItem ''item-3'' ''tenant-1'' ''product-1'' 20 0 None]"
  let ?e = "\<lparr>inventoryItemId = ''item-2'', quantity = 3\<rparr>"
  have key1: "primaryKey [?one]"
    by (simp add: primaryKey_def)
  have mem1: "?one \<in> set [?one]" by simp
  have key: "primaryKey fefoExample"
    by (simp add: primaryKey_def fefoExample_def exampleItem_def)
  have mem: "?two \<in> set fefoExample" by (simp add: fefoExample_def)
  have run: "reserveInventory fefoExample ''product-1'' 8 ''tenant-1'' 7
       = (?db1, Inr [\<lparr>inventoryItemId = ''item-1'', quantity = 5\<rparr>, ?e])"
    by (simp add: reserveInventory_def availableItems_fefoExample)
       (simp add: fefoExample_def exampleItem_def updateWhereId_def int4_def)
  have refused: "releaseReservedInventory [?one] ''item-1'' 6 9 = ([?one], Inl InvalidArgument)"
    using release_contract [OF key1 mem1, where q = 6 and now = 9]
    by (simp add: exampleItem_def int4_def)
  have released: "releaseReservedInventory [?one] ''item-1'' 3 9
       = ([(exampleItem ''item-1'' ''tenant-1'' ''product-1'' 5 2 None)\<lparr>updatedAt := 9\<rparr>],
          Inr ())"
    using release_contract [OF key1 mem1, where q = 3 and now = 9]
    by (simp add: exampleItem_def int4_def)
  have key9: "primaryKey [exampleItem ''item-9'' ''tenant-1'' ''product-1'' 2147483647 1 None]"
    by (simp add: primaryKey_def)
  have mem9: "exampleItem ''item-9'' ''tenant-1'' ''product-1'' 2147483647 1 None \<in> set [exampleItem ''item-9'' ''tenant-1'' ''product-1'' 2147483647 1 None]"
    by simp
  have refusedByStore: "releaseReservedInventory [exampleItem ''item-9'' ''tenant-1'' ''product-1'' 2147483647 1 None] ''item-9'' 1 9
       = ([exampleItem ''item-9'' ''tenant-1'' ''product-1'' 2147483647 1 None], Inl IntegerOutOfRange)"
    using release_contract [OF key9 mem9, where q = 1 and now = 9]
    by (simp add: exampleItem_def int4_def)
  have restored: "releaseReservedInventory ?db1 ''item-2'' 3 9
       = ([(exampleItem ''item-1'' ''tenant-1'' ''product-1'' 0 5 (Some (2024, 1, 1)))
              \<lparr>updatedAt := 7\<rparr>,
           (exampleItem ''item-2'' ''tenant-1'' ''product-1'' 10 0 (Some (2024, 6, 1)))
              \<lparr>updatedAt := 9\<rparr>,
           exampleItem ''item-3'' ''tenant-1'' ''product-1'' 20 0 None],
          Inr ())"
    using release_contract [OF key mem, where pid = "''product-1''" and n = 8
            and tid = "''tenant-1''" and ?now1.0 = 7 and ?db1.0 = ?db1
            and rs = "[\<lparr>inventoryItemId = ''item-1'', quantity = 5\<rparr>, ?e]"
            and e = ?e and now = 9 and q = 3] run
    by (simp add: exampleItem_def int4_def)
  from key1 refused released refusedByStore key run restored show ?thesis by (intro conjI)
qed

text \<open>
  Claim C5 as stated fails: a row with 2147483647 available units and 1 reserved unit
  passes the guard for a release of 1, but the store refuses the new available quantity
  2147483648; the call fails with the store's error and the row is as it was.
\<close>

theorem release_contract_counterexample:
  "(1::int) \<le> reservedQuantity (exampleItem ''item-1'' ''tenant-1'' ''product-1'' 2147483647 1 None)
   \<and> releaseReservedInventory [exampleItem ''item-1'' ''tenant-1'' ''product-1'' 2147483647 1 None] ''item-1'' 1 9
       = ([exampleItem ''item-1'' ''tenant-1'' ''product-1'' 2147483647 1 None], Inl IntegerOutOfRange)"
  by (simp add: releaseReservedInventory_def exampleItem_def int4_def)

subsection \<open>Adjustment\<close>

text \<open>
  Claim C6. For a row of the caller's tenant and a request that passes the schema, a
  decrease is refused as insufficient stock exactly when \<open>availableQuantity - quantity\<close>
  is negative, and the table is then unchanged; a decrease by the whole available
  quantity succeeds and leaves 0 available; and no call of the handler, valid or not,
  changes any \<open>reservedQuantity\<close>.
\<close>

theorem adjust_boundary:
  assumes "primaryKey db" and "r \<in> set db" and "tenantId r = activeTenantId"
    and "itemId r \<noteq> []" and "inventoryAdjustmentSchema isUuid (itemId r) d"
  shows "(adjustmentType d = ''decrease'' \<longrightarrow>
            ((snd (adjust isUuid db activeTenantId (itemId r) d now)
                 = Inl InsufficientStockForAdjustment)
               = (availableQuantity r - adjQuantity d < 0))
          \<and> (availableQuantity r - adjQuantity d < 0 \<longrightarrow>
                fst (adjust isUuid db activeTenantId (itemId r) d now) = db)
          \<and> (adjQuantity d = availableQuantity r \<longrightarrow>
                adjust isUuid db activeTenantId (itemId r) d now
                  = (map (\<lambda>x. if itemId x = itemId r
                               then x\<lparr>availableQuantity := 0, updatedAt := now\<rparr> else x) db,
                     Inr (Some (r\<lparr>availableQuantity := 0, updatedAt := now\<rparr>)))))
       \<and> map reservedQuantity (fst (adjust isUuid' db' activeTenantId' i' d' now'))
           = map reservedQuantity db'"
proof -
  have sel: "filter (\<lambda>x. itemId x = itemId r \<and> tenantId x = activeTenantId) db = [r]"
    using assms(1,2,3) by (rule select_by_id_and_tenant)
  have dist: "distinct (map itemId db)"
    using assms(1) by (simp add: primaryKey_def)
  have found: "find (\<lambda>x. itemId x = itemId r)
                 (updateWhereId (itemId r) (\<lambda>x. x\<lparr>availableQuantity := n, updatedAt := now\<rparr>) db)
                = Some (r\<lparr>availableQuantity := n, updatedAt := now\<rparr>)" for n
    using find_updated [OF dist assms(2), of "\<lambda>x. x\<lparr>availableQuantity := n, updatedAt := now\<rparr>"]
    by simp
  have dec: "adjustmentType d = ''decrease'' \<Longrightarrow>
          adjust isUuid db activeTenantId (itemId r) d now
            = (if availableQuantity r - adjQuantity d < 0
               then (db, Inl InsufficientStockForAdjustment)
               else if \<not> int4 (availableQuantity r - adjQuantity d)
               then (db, Inl InvalidArgument)
               else (updateWhereId (itemId r)
                       (\<lambda>x. x\<lparr>availableQuantity := availableQuantity r - adjQuantity d,
                               updatedAt := now\<rparr>) db,
                     Inr (Some (r\<lparr>availableQuantity := availableQuantity r - adjQuantity d,
                                  updatedAt := now\<rparr>))))"
    using assms(4,5) by (simp add: adjust_def sel found Let_def)
  have first: "adjustmentType d = ''decrease'' \<longrightarrow>
            ((snd (adjust isUuid db activeTenantId (itemId r) d now)
                 = Inl InsufficientStockForAdjustment)
               = (availableQuantity r - adjQuantity d < 0))
          \<and> (availableQuantity r - adjQuantity d < 0 \<longrightarrow>
                fst (adjust isUuid db activeTenantId (itemId r) d now) = db)
          \<and> (adjQuantity d = availableQuantity r \<longrightarrow>
                adjust isUuid db activeTenantId (itemId r) d now
                  = (map (\<lambda>x. if itemId x = itemId r
                               then x\<lparr>availableQuantity := 0, updatedAt := now\<rparr> else x) db,
                     Inr (Some (r\<lparr>availableQuantity := 0, updatedAt := now\<rparr>))))"
  proof
    assume "adjustmentType d = ''decrease''"
    note eq = dec [OF this]
    show "((snd (adjust isUuid db activeTenantId (itemId r) d now)
                 = Inl InsufficientStockForAdjustment)
               = (availableQuantity r - adjQuantity d < 0))
          \<and> (availableQuantity r - adjQuantity d < 0 \<longrightarrow>
                fst (adjust isUuid db activeTenantId (itemId r) d now) = db)
          \<and> (adjQuantity d = availableQuantity r \<longrightarrow>
                adjust isUuid db activeTenantId (itemId r) d now
                  = (map (\<lambda>x. if itemId x = itemId r
                               then x\<lparr>availableQuantity := 0, updatedAt := now\<rparr> else x) db,
                     Inr (Some (r\<lparr>availableQuantity := 0, updatedAt := now\<rparr>))))"
      unfolding eq by (simp add: updateWhereId_def int4_def)
  qed
  show ?thesis
    using first adjust_reserved_unchanged by simp
qed

text \<open>Claim C6, witness: on a row with 5 available units a decrease by 5 succeeds
  and a decrease by 6 is refused.\<close>

theorem adjust_boundary_witness:
  "primaryKey [exampleItem ''item-1'' ''tenant-1'' ''product-1'' 5 2 None]
   \<and> inventoryAdjustmentSchema (\<lambda>i. True) ''item-1''
        \<lparr>adjustmentType = ''decrease'', adjQuantity = 5, reason = ''damaged''\<rparr>
   \<and> inventoryAdjustmentSchema (\<lambda>i. True) ''item-1''
        \<lparr>adjustmentType = ''decrease'', adjQuantity = 6, reason = ''damaged''\<rparr>
   \<and> adjust (\<lambda>i. True) [exampleItem ''item-1'' ''tenant-1'' ''product-1'' 5 2 None]
        ''tenant-1'' ''item-1''
        \<lparr>adjustmentType = ''decrease'', adjQuantity = 5, reason = ''damaged''\<rparr> 9
      = ([(exampleItem ''item-1'' ''tenant-1'' ''product-1'' 5 2 None)
             \<lparr>availableQuantity := 0, updatedAt := 9\<rparr>],
         Inr (Some ((exampleItem ''item-1'' ''tenant-1'' ''product-1'' 5 2 None)
             \<lparr>availableQuantity := 0, updatedAt := 9\<rparr>)))
   \<and> adjust (\<lambda>i. True) [exampleItem ''item-1'' ''tenant-1'' ''product-1'' 5 2 None]
        ''tenant-1'' ''item-1''
        \<lparr>adjustmentType = ''decrease'', adjQuantity = 6, reason = ''damaged''\<rparr> 9
      = ([exampleItem ''item-1'' ''tenant-1'' ''product-1'' 5 2 None],
         Inl InsufficientStockForAdjustment)"
  using adjust_boundary
          [of "[exampleItem ''item-1'' ''tenant-1'' ''product-1'' 5 2 None]"
              "exampleItem ''item-1'' ''tenant-1'' ''product-1'' 5 2 None" "''tenant-1''"
              "\<lambda>i. True"
              "\<lparr>adjustmentType = ''decrease'', adjQuantity = 5, reason = ''damaged''\<rparr>" 9]
        adjust_boundary
          [of "[exampleItem ''item-1'' ''tenant-1'' ''product-1'' 5 2 None]"
              "exampleItem ''item-1'' ''tenant-1'' ''product-1'' 5 2 None" "''tenant-1''"
              "\<lambda>i. True"
              "\<lparr>adjustmentType = ''decrease'', adjQuantity = 6, reason = ''damaged''\<rparr>" 9]
  by (simp add: primaryKey_def exampleItem_def inventoryAdjustmentSchema_def prod_eq_iff int4_def)

subsection \<open>Reservation with a non-positive quantity\<close>

text \<open>
  Claim C7, as amended. \<open>reserveInventory\<close> does not validate \<open>quantity\<close>: for every
  quantity \<open>\<le> 0\<close> the loop breaks before its first update, the final test
  \<open>remainingQuantity > 0\<close> is false, and the call returns successfully with the empty
  reservation list, leaving the table as it was.
\<close>

theorem reserve_nonpositive_quantity:
  "qty \<le> 0 \<Longrightarrow> reserveInventory db pid qty tid now = (db, Inr [])"
  by (simp add: reserveInventory_def reserveLoop_break)

text \<open>Claim C7, witness: quantity \<open>0\<close> on a table with one stocked row.\<close>

theorem reserve_nonpositive_quantity_witness:
  "(0::int) \<le> 0 \<and>
   reserveInventory [exampleItem ''item-1'' ''tenant-1'' ''product-1'' 5 0 None]
       ''product-1'' 0 ''tenant-1'' 7
     = ([exampleItem ''item-1'' ''tenant-1'' ''product-1'' 5 0 None], Inr [])"
  using reserve_nonpositive_quantity [of 0 "[exampleItem ''item-1'' ''tenant-1'' ''product-1'' 5 0 None]" "''product-1''" "''tenant-1''" 7]
  by simp

text \<open>Claim C7 as stated fails: with quantity \<open>-3\<close> the call does not fail with
  \<open>InvalidArgument\<close>, it succeeds with the empty list.\<close>

theorem reserve_nonpositive_quantity_counterexample:
  "snd (reserveInventory [exampleItem ''item-1'' ''tenant-1'' ''product-1'' 5 0 None]
       ''product-1'' (- 3) ''tenant-1'' 7) = Inr [] \<and>
   snd (reserveInventory [exampleItem ''item-1'' ''tenant-1'' ''product-1'' 5 0 None]
       ''product-1'' (- 3) ''tenant-1'' 7) \<noteq> Inl InvalidArgument"
  by (simp add: reserveInventory_def reserveLoop_break)

subsection \<open>Totals of a product without rows\<close>

text \<open>
  Claim C8. When no row exists for the product and tenant, the aggregate query still
  returns one row, whose two sums are \<open>NULL\<close>; \<open>result[0]\<close> is that row, so the
  fallback \<open>{ totalAvailable: 0, totalReserved: 0 }\<close> is never taken and the call returns
  null totals rather than zeros.
\<close>

theorem getTotalStock_no_rows:
  "filter (\<lambda>r. productId r = pid \<and> tenantId r = tid) db = [] \<Longrightarrow>
     getTotalStockForProduct db pid tid = \<lparr>totalAvailable = None, totalReserved = None\<rparr>"
  by (simp add: getTotalStockForProduct_def selectTotals_def sqlSum_def)

text \<open>Claim C8, witness: the empty table.\<close>

theorem getTotalStock_no_rows_witness:
  "filter (\<lambda>r. productId r = ''product-1'' \<and> tenantId r = ''tenant-1'') [] = [] \<and>
   getTotalStockForProduct [] ''product-1'' ''tenant-1''
     = \<lparr>totalAvailable = None, totalReserved = None\<rparr> \<and>
   getTotalStockForProduct [] ''product-1'' ''tenant-1''
     \<noteq> \<lparr>totalAvailable = Some 0, totalReserved = Some 0\<rparr>"
  using getTotalStock_no_rows [of "''product-1''" "''tenant-1''" "[]"]
  by simp

subsection \<open>Release and tenants\<close>

text \<open>
  Claim C9. \<open>releaseReservedInventory\<close> selects and updates by \<open>id\<close> alone. A row of
  tenant B with 2 available and 5 reserved units, released by 3 on behalf of any other
  tenant A, is updated to 5 available and 2 reserved units.
\<close>

theorem release_other_tenant:
  "tenantId (exampleItem ''item-1'' ''tenant-B'' ''product-1'' 2 5 None) \<noteq> ''tenant-A'' \<and>
   releaseReservedInventory [exampleItem ''item-1'' ''tenant-B'' ''product-1'' 2 5 None]
       ''item-1'' 3 9
     = ([(exampleItem ''item-1'' ''tenant-B'' ''product-1'' 2 5 None)
            \<lparr>availableQuantity := 5, reservedQuantity := 2, updatedAt := 9\<rparr>], Inr ())"
  by (simp add: releaseReservedInventory_def updateWhereId_def exampleItem_def int4_def)

subsection \<open>Release with a non-positive quantity\<close>

text \<open>
  Claim C10, as amended. For a row with \<open>reservedQuantity \<ge> 0\<close> and a quantity \<open>q \<le> 0\<close>
  the guard \<open>reservedQuantity < q\<close> is false. When \<open>availableQuantity + q\<close> and
  \<open>reservedQuantity - q\<close> are in the range of the \<open>integer\<close> column, the release
  succeeds, the row gets these two values, no other row changes, and the new
  \<open>availableQuantity\<close> is negative whenever \<open>|q|\<close> exceeds the old one.
\<close>

theorem release_nonpositive_quantity:
  assumes "primaryKey db" and "r \<in> set db" and "0 \<le> reservedQuantity r" and "q \<le> 0"
    and "int4 (availableQuantity r + q)" and "int4 (reservedQuantity r - q)"
  shows "releaseReservedInventory db (itemId r) q now =
           (map (\<lambda>x. if itemId x = itemId r
                      then x\<lparr>availableQuantity := availableQuantity r + q,
                             reservedQuantity := reservedQuantity r - q,
                             updatedAt := now\<rparr>
                      else x) db, Inr ())
         \<and> (\<forall>x \<in> set (fst (releaseReservedInventory db (itemId r) q now)).
               itemId x = itemId r \<longrightarrow>
                 availableQuantity x = availableQuantity r + q \<and>
                 reservedQuantity x = reservedQuantity r - q \<and>
                 (availableQuantity r < - q \<longrightarrow> availableQuantity x < 0))"
proof -
  have sel: "filter (\<lambda>x. itemId x = itemId r) db = [r]"
    using assms(1,2) by (rule filter_primaryKey)
  have guard: "\<not> reservedQuantity r < q"
    using assms(3,4) by simp
  have res: "releaseReservedInventory db (itemId r) q now =
           (map (\<lambda>x. if itemId x = itemId r
                      then x\<lparr>availableQuantity := availableQuantity r + q,
                             reservedQuantity := reservedQuantity r - q,
                             updatedAt := now\<rparr>
                      else x) db, Inr ())"
    using guard assms(5,6) by (simp add: releaseReservedInventory_def sel updateWhereId_def)
  show ?thesis
    unfolding res by auto
qed

text \<open>Claim C10, witness: releasing \<open>-3\<close> on a row with 2 available and 5 reserved
  units leaves \<open>-1\<close> available and 8 reserved.\<close>

theorem release_nonpositive_quantity_witness:
  "primaryKey [exampleItem ''item-1'' ''tenant-1'' ''product-1'' 2 5 None] \<and>
   (0::int) \<le> 5 \<and> (- 3::int) \<le> 0 \<and> int4 (2 + - 3) \<and> int4 (5 - - 3) \<and>
   releaseReservedInventory [exampleItem ''item-1'' ''tenant-1'' ''product-1'' 2 5 None]
       ''item-1'' (- 3) 9
     = ([(exampleItem ''item-1'' ''tenant-1'' ''product-1'' 2 5 None)
            \<lparr>availableQuantity := - 1, reservedQuantity := 8, updatedAt := 9\<rparr>], Inr ())"
  using release_nonpositive_quantity
          [of "[exampleItem ''item-1'' ''tenant-1'' ''product-1'' 2 5 None]"
              "exampleItem ''item-1'' ''tenant-1'' ''product-1'' 2 5 None" "- 3" 9]
  by (simp add: primaryKey_def exampleItem_def int4_def)

text \<open>
  Claim C10 as stated fails: on a row with 5 available and 0 reserved units the release of
  \<open>-2147483648\<close> passes the guard, but the store refuses the new reserved quantity
  2147483648; the call fails with the store's error and the row is as it was.
\<close>

theorem release_nonpositive_quantity_counterexample:
  "(0::int) \<le> reservedQuantity (exampleItem ''item-1'' ''tenant-1'' ''product-1'' 5 0 None)
   \<and> (- 2147483648::int) \<le> 0
   \<and> releaseReservedInventory [exampleItem ''item-1'' ''tenant-1'' ''product-1'' 5 0 None] ''item-1'' (- 2147483648) 9
       = ([exampleItem ''item-1'' ''tenant-1'' ''product-1'' 5 0 None], Inl IntegerOutOfRange)"
  by (simp add: releaseReservedInventory_def exampleItem_def int4_def)

end
